theory Spec2Isabelle
  imports Complex_Main "HOL-Library.Sublist"
begin

section \<open>Prompt storage layer of the prompt manager (src/lib/storage.ts)\<close>

text \<open>
  A shallow embedding of the storage layer: chunking and reconstruction of oversized
  prompts, saving with the quota fallback, loading, searching, import and the Notion
  sync wrapper.

  Conventions of the embedding.
  \<^item> A JavaScript string is a \<open>string\<close>: one \<open>char\<close> per UTF-16 code unit, for code
    units in the range 0..255. \<open>length\<close> is the JavaScript \<open>.length\<close>.
  \<^item> A property that is \<open>undefined\<close> or absent is \<open>None\<close>; reading either gives
    \<open>undefined\<close> in the source, and \<open>JSON.stringify\<close> writes neither.
  \<^item> Exceptions and rejected promises are values of type \<open>exn\<close>; a function that can
    throw returns \<open>exn + 'a\<close>, with \<open>Inl\<close> for the exception.
  \<^item> An asynchronous function is the sequence of its effects on the \<open>chrome\<close> state
    (section 5 of the specification: one writer, no interleaving).
  \<^item> A promise that is never settled, because a storage callback threw before calling
    \<open>resolve\<close>, is the result \<open>None\<close>; a function that awaits it does not return
    either. A function that awaits \<open>getPrompts\<close> returns \<open>(exn + 'a) option\<close>.
  \<^item> \<open>console.log\<close>, \<open>console.warn\<close> and \<open>console.error\<close> are not modelled, except
    where evaluating their argument throws.
\<close>

subsection \<open>Data model (types.ts)\<close>

datatype StorageType = Local | Notion

record Prompt =
  id' :: string
  title :: string
  content :: "string option"
  tags :: "string list option"
  createdAt :: int
  updatedAt :: int
  chunkCount :: "nat option"
  originalSize :: "rat option"

record NotionConfig =
  apiKey :: string
  pageId :: string

record SyncStatus =
  lastSynced :: "int option"
  inProgress :: bool
  error :: "string option"

text \<open>
  The interface \<open>Prompt\<close> declares \<open>content: string\<close>; the metadata shell that
  \<open>chunkPrompt\<close> builds sets \<open>content: undefined\<close> and is stored in the same list, so the
  field is an option here and a read of \<open>.length\<close> on \<open>undefined\<close> is a \<open>TypeError\<close>.
\<close>

datatype exn =
  Error string
  | TypeError string
  | SyntaxError string
  | LastError "string option"

text \<open>
  \<open>LastError m\<close> is the plain object \<open>chrome.runtime.lastError\<close> with its optional
  \<open>message\<close>; it is the only exception value here that is not an instance of \<open>Error\<close>.
\<close>

fun instanceofError :: "exn \<Rightarrow> bool" where
  "instanceofError (Error m) = True"
| "instanceofError (TypeError m) = True"
| "instanceofError (SyntaxError m) = True"
| "instanceofError (LastError m) = False"

fun message :: "exn \<Rightarrow> string" where
  "message (Error m) = m"
| "message (TypeError m) = m"
| "message (SyntaxError m) = m"
| "message (LastError m) = (case m of None \<Rightarrow> [] | Some s \<Rightarrow> s)"

subsection \<open>Chunking constants\<close>

definition MAX_PROMPT_SIZE_KB :: rat where
  "MAX_PROMPT_SIZE_KB = 7"

definition CHUNK_SIZE_CHARS :: nat where
  "CHUNK_SIZE_CHARS = 3000"

subsection \<open>chunkPrompt and reconstructPrompt\<close>

text \<open>\<open>s.slice(a, b)\<close> for \<open>0 \<le> a \<le> b\<close>: the end is clamped to the length.\<close>

definition slice :: "string \<Rightarrow> nat \<Rightarrow> nat \<Rightarrow> string" where
  "slice s a b = take (b - a) (drop a s)"

text \<open>
  The loop \<open>for (let i = 0; i < content.length; i += CHUNK_SIZE_CHARS)
  chunks.push(content.slice(i, i + CHUNK_SIZE_CHARS))\<close>, with the loop variable and the
  array built so far as arguments.
\<close>

function chunkLoop :: "string \<Rightarrow> nat \<Rightarrow> string list \<Rightarrow> string list" where
  "chunkLoop s i chunks =
     (if i < length s
      then chunkLoop s (i + CHUNK_SIZE_CHARS) (chunks @ [slice s i (i + CHUNK_SIZE_CHARS)])
      else chunks)"
  by pat_completeness auto
termination
  by (relation "measure (\<lambda>(s, i, chunks). length s - i)") (auto simp: CHUNK_SIZE_CHARS_def)

declare chunkLoop.simps [simp del]

text \<open>
  \<open>promptSizeKB\<close>: the byte size of the record's JSON text over 1024. The byte size
  \<open>new Blob([JSON.stringify(prompt)]).size\<close> is computed by the platform; it is the
  parameter \<open>sz\<close> of every function that measures a record, and \<open>blobSize\<close> below is a
  model of it for concrete runs.
\<close>

definition promptSizeKB :: "(Prompt \<Rightarrow> nat) \<Rightarrow> Prompt \<Rightarrow> rat" where
  "promptSizeKB sz prompt = of_nat (sz prompt) / 1024"

text \<open>
  \<open>chunkPrompt\<close> returns \<open>{metadata, chunks}\<close>; \<open>metadata: null\<close> is \<open>None\<close>. Reading
  \<open>content.length\<close> of a record without content throws.
\<close>

definition chunkPrompt :: "(Prompt \<Rightarrow> nat) \<Rightarrow> Prompt \<Rightarrow> exn + (Prompt option \<times> string list)" where
  "chunkPrompt sz prompt =
     (if promptSizeKB sz prompt \<le> MAX_PROMPT_SIZE_KB then Inr (None, [])
      else
        (case content prompt of
           None \<Rightarrow> Inl (TypeError ''Cannot read properties of undefined (reading 'length')'')
         | Some s \<Rightarrow>
             (let chunks = chunkLoop s 0 [];
                  metadata = prompt\<lparr>content := None,
                                    chunkCount := Some (length chunks),
                                    originalSize := Some (promptSizeKB sz prompt)\<rparr>
              in Inr (Some metadata, chunks))))"

definition reconstructPrompt :: "Prompt \<Rightarrow> string list \<Rightarrow> Prompt" where
  "reconstructPrompt metadata chunks =
     metadata\<lparr>content := Some (concat chunks), chunkCount := None, originalSize := None\<rparr>"


subsection \<open>A model of the platform's size estimate\<close>

text \<open>
  \<open>blobSize\<close> models \<open>new Blob([JSON.stringify(prompt)]).size\<close>: the UTF-8 byte length
  of the JSON text of a record. Properties that are \<open>undefined\<close> are not written. A
  code unit below 128 is one byte and one from 128 to 255 is two; a double quote, a
  backslash and the control characters with a short escape take two bytes, the other
  control characters six (\<open>\u00XX\<close>). Integers are written in decimal. The size does not
  depend on the order of the properties. The decimal text of \<open>originalSize\<close> is exact
  for the values \<open>chunkPrompt\<close> writes (multiples of 1/1024 with at most 15 significant
  digits); the theorems below hold for every size estimate, and use \<open>blobSize\<close> only in
  their concrete instances.
\<close>

definition charBytes :: "char \<Rightarrow> nat" where
  "charBytes c =
     (let n = (of_char c :: nat) in
      if n = 34 \<or> n = 92 then 2
      else if n = 8 \<or> n = 9 \<or> n = 10 \<or> n = 12 \<or> n = 13 then 2
      else if n < 32 then 6
      else if n < 128 then 1
      else 2)"

definition jsonStringBytes :: "string \<Rightarrow> nat" where
  "jsonStringBytes s = 2 + sum_list (map charBytes s)"

fun showNat :: "nat \<Rightarrow> string" where
  "showNat n =
     (if n < 10 then [char_of (48 + n)]
      else showNat (n div 10) @ [char_of (48 + n mod 10)])"

declare showNat.simps [simp del]

definition jsonIntBytes :: "int \<Rightarrow> nat" where
  "jsonIntBytes n = (if n < 0 then 1 else 0) + length (showNat (nat \<bar>n\<bar>))"

fun fractionDigits :: "nat \<Rightarrow> nat \<Rightarrow> nat \<Rightarrow> nat" where
  "fractionDigits 0 r d = 0"
| "fractionDigits (Suc fuel) r d =
     (if r = 0 then 0 else Suc (fractionDigits fuel ((r * 10) mod d) d))"

definition jsonRatBytes :: "rat \<Rightarrow> nat" where
  "jsonRatBytes q =
     (let (a, b) = quotient_of q;
          n = nat \<bar>a\<bar>;
          d = nat b;
          r = n mod d
      in (if a < 0 then 1 else 0) + length (showNat (n div d))
         + (if r = 0 then 0 else 1 + fractionDigits 17 r d))"

definition jsonArrayBytes :: "string list \<Rightarrow> nat" where
  "jsonArrayBytes xs = 2 + sum_list (map jsonStringBytes xs) + (length xs - 1)"

text \<open>One property: the quoted key, the colon and the value.\<close>

definition jsonField :: "string \<Rightarrow> nat \<Rightarrow> nat" where
  "jsonField k v = length k + 3 + v"

definition jsonFields :: "Prompt \<Rightarrow> nat list" where
  "jsonFields p =
     [jsonField ''id'' (jsonStringBytes (id' p)),
      jsonField ''title'' (jsonStringBytes (title p))]
     @ (case content p of None \<Rightarrow> [] | Some s \<Rightarrow> [jsonField ''content'' (jsonStringBytes s)])
     @ (case tags p of None \<Rightarrow> [] | Some ts \<Rightarrow> [jsonField ''tags'' (jsonArrayBytes ts)])
     @ [jsonField ''createdAt'' (jsonIntBytes (createdAt p)),
        jsonField ''updatedAt'' (jsonIntBytes (updatedAt p))]
     @ (case chunkCount p of None \<Rightarrow> [] | Some n \<Rightarrow> [jsonField ''chunkCount'' (length (showNat n))])
     @ (case originalSize p of None \<Rightarrow> [] | Some q \<Rightarrow> [jsonField ''originalSize'' (jsonRatBytes q)])"

definition blobSize :: "Prompt \<Rightarrow> nat" where
  "blobSize p = 2 + sum_list (jsonFields p) + (length (jsonFields p) - 1)"

subsection \<open>The two storage areas\<close>

text \<open>
  \<open>STORAGE_KEYS\<close>: the keys of a storage area, each with the type of the value stored
  under it. An \<open>items\<close> value is the contents of an area, and also the object passed to
  \<open>storage.set\<close>, where \<open>None\<close> is a key the object does not have.
\<close>

record items =
  PROMPTS :: "Prompt list option"
  STORAGE_TYPE :: "StorageType option"
  NOTION_CONFIG :: "NotionConfig option"
  SYNC_STATUS :: "SyncStatus option"
  TAGS :: "string list option"
  PROMPT_CHUNKS :: "(string \<Rightarrow> string list option) option"

definition noItems :: items where
  "noItems = \<lparr>PROMPTS = None, STORAGE_TYPE = None, NOTION_CONFIG = None,
              SYNC_STATUS = None, TAGS = None, PROMPT_CHUNKS = None\<rparr>"

datatype area = SyncArea | LocalArea

datatype access = Get area | Set area items

text \<open>
  The state of \<open>chrome.storage\<close>: the contents of \<open>chrome.storage.sync\<close> and
  \<open>chrome.storage.local\<close>, and the calls made so far, in order.
\<close>

record chrome =
  sync :: items
  local :: items
  calls :: "access list"

definition areaItems :: "area \<Rightarrow> chrome \<Rightarrow> items" where
  "areaItems a st = (case a of SyncArea \<Rightarrow> sync st | LocalArea \<Rightarrow> local st)"

definition orElse :: "'a option \<Rightarrow> 'a option \<Rightarrow> 'a option" where
  "orElse new old = (case new of None \<Rightarrow> old | Some v \<Rightarrow> Some v)"

text \<open>\<open>storage.set\<close> overwrites the keys of its argument and keeps the others.\<close>

definition mergeItems :: "items \<Rightarrow> items \<Rightarrow> items" where
  "mergeItems d old =
     \<lparr>PROMPTS = orElse (PROMPTS d) (PROMPTS old),
      STORAGE_TYPE = orElse (STORAGE_TYPE d) (STORAGE_TYPE old),
      NOTION_CONFIG = orElse (NOTION_CONFIG d) (NOTION_CONFIG old),
      SYNC_STATUS = orElse (SYNC_STATUS d) (SYNC_STATUS old),
      TAGS = orElse (TAGS d) (TAGS old),
      PROMPT_CHUNKS = orElse (PROMPT_CHUNKS d) (PROMPT_CHUNKS old)\<rparr>"

definition writeArea :: "area \<Rightarrow> items \<Rightarrow> chrome \<Rightarrow> chrome" where
  "writeArea a d st =
     (case a of
        SyncArea \<Rightarrow> st\<lparr>sync := mergeItems d (sync st)\<rparr>
      | LocalArea \<Rightarrow> st\<lparr>local := mergeItems d (local st)\<rparr>)"

text \<open>
  Whether a write fails is decided by the platform (quotas, item limits): \<open>le a d st\<close> is
  \<open>chrome.runtime.lastError\<close> in the callback of \<open>set\<close> on area \<open>a\<close> with object \<open>d\<close> in
  state \<open>st\<close>: \<open>None\<close> when the write succeeded, \<open>Some m\<close> when it failed with the
  optional message \<open>m\<close>. A failed write changes no key. Reads do not fail.
\<close>

type_synonym lastError = "area \<Rightarrow> items \<Rightarrow> chrome \<Rightarrow> string option option"

definition storageSet :: "lastError \<Rightarrow> area \<Rightarrow> items \<Rightarrow> chrome \<Rightarrow> string option option \<times> chrome" where
  "storageSet le a d st =
     (let st1 = st\<lparr>calls := calls st @ [Set a d]\<rparr>
      in case le a d st of
           None \<Rightarrow> (None, writeArea a d st1)
         | Some m \<Rightarrow> (Some m, st1))"

definition storageGet :: "area \<Rightarrow> chrome \<Rightarrow> items \<times> chrome" where
  "storageGet a st = (areaItems a st, st\<lparr>calls := calls st @ [Get a]\<rparr>)"


subsection \<open>Plain objects used as dictionaries\<close>

text \<open>
  The fragment map is a plain object with the record ids as keys. Its own properties are
  a partial map. A read \<open>obj[key]\<close> of a key that is not an own property continues in
  \<open>Object.prototype\<close>, which has eleven methods, each with its \<open>length\<close> (the number of
  declared parameters), and the accessor \<open>__proto__\<close>, whose getter returns
  \<open>Object.prototype\<close> itself.
\<close>

datatype member = Method nat | Accessor

definition objectPrototype :: "string \<Rightarrow> member option" where
  "objectPrototype key =
     (if key = ''constructor'' \<or> key = ''hasOwnProperty'' \<or> key = ''isPrototypeOf''
         \<or> key = ''propertyIsEnumerable'' \<or> key = ''__lookupGetter__''
         \<or> key = ''__lookupSetter__''
      then Some (Method 1)
      else if key = ''__defineGetter__'' \<or> key = ''__defineSetter__'' then Some (Method 2)
      else if key = ''toString'' \<or> key = ''toLocaleString'' \<or> key = ''valueOf''
      then Some (Method 0)
      else if key = ''__proto__'' then Some Accessor
      else None)"

text \<open>What \<open>obj[key]\<close> evaluates to: an own value, an inherited member, or \<open>undefined\<close>.\<close>

datatype 'a property = Own 'a | Inherited member | Undefined

definition getProperty :: "(string \<Rightarrow> 'a option) \<Rightarrow> string \<Rightarrow> 'a property" where
  "getProperty obj key =
     (case obj key of
        Some v \<Rightarrow> Own v
      | None \<Rightarrow> (case objectPrototype key of Some m \<Rightarrow> Inherited m | None \<Rightarrow> Undefined))"

text \<open>
  The assignment \<open>obj[key] = value\<close> on an object created by \<open>{}\<close>, for a value that
  is an array: it creates or overwrites the own property, except for the key
  \<open>__proto__\<close>, where it calls the inherited setter, which replaces the prototype of
  \<open>obj\<close> and adds no own property. Only own properties are written to the storage.
\<close>

definition setProperty :: "(string \<Rightarrow> 'a option) \<Rightarrow> string \<Rightarrow> 'a \<Rightarrow> (string \<Rightarrow> 'a option)" where
  "setProperty obj key v = (if key = ''__proto__'' then obj else obj(key \<mapsto> v))"

subsection \<open>getPrompts\<close>

definition missingChunks :: string where
  "missingChunks = ''[Error: Content chunks missing]''"

text \<open>
  The callback of \<open>savedPrompts.map\<close>. \<open>prompt.chunkCount && prompt.chunkCount > 0\<close> is
  false for an absent count and for 0. \<open>promptChunks\<close> is \<open>chunks[prompt.id]\<close>, and
  \<open>promptChunks && promptChunks.length === prompt.chunkCount\<close> is false for
  \<open>undefined\<close>, for an array or a function of another \<open>length\<close>, and for
  \<open>Object.prototype\<close>, which has no \<open>length\<close>. For an inherited method whose \<open>length\<close>
  is the count, \<open>reconstructPrompt\<close> is called with the function and its
  \<open>chunks.join('')\<close> throws, \<open>join\<close> being \<open>undefined\<close> on a function.
\<close>

definition processEntry :: "(string \<Rightarrow> string list option) \<Rightarrow> Prompt \<Rightarrow> exn + Prompt" where
  "processEntry chunks prompt =
     (case chunkCount prompt of
        None \<Rightarrow> Inr prompt
      | Some n \<Rightarrow>
          if n > 0
          then
            (case getProperty chunks (id' prompt) of
               Undefined \<Rightarrow> Inr (prompt\<lparr>content := Some missingChunks\<rparr>)
             | Own promptChunks \<Rightarrow>
                 if length promptChunks = n
                 then Inr (reconstructPrompt prompt promptChunks)
                 else Inr (prompt\<lparr>content := Some missingChunks\<rparr>)
             | Inherited (Method k) \<Rightarrow>
                 if k = n
                 then Inl (TypeError ''chunks.join is not a function'')
                 else Inr (prompt\<lparr>content := Some missingChunks\<rparr>)
             | Inherited Accessor \<Rightarrow> Inr (prompt\<lparr>content := Some missingChunks\<rparr>))
          else Inr prompt)"

text \<open>\<open>Array.prototype.map\<close> with a callback that can throw: the first throw ends the loop.\<close>

fun mapE :: "('a \<Rightarrow> exn + 'b) \<Rightarrow> 'a list \<Rightarrow> exn + 'b list" where
  "mapE f [] = Inr []"
| "mapE f (x # xs) =
     (case f x of
        Inl e \<Rightarrow> Inl e
      | Inr y \<Rightarrow> (case mapE f xs of Inl e \<Rightarrow> Inl e | Inr ys \<Rightarrow> Inr (y # ys)))"

text \<open>
  \<open>processPrompts\<close> up to its call of \<open>resolve\<close>: the value it resolves the promise
  with, or the exception that leaves the storage callback.
\<close>

definition processPrompts :: "items \<Rightarrow> exn + (Prompt list \<times> StorageType)" where
  "processPrompts result =
     (let storageType = (case STORAGE_TYPE result of None \<Rightarrow> Local | Some t \<Rightarrow> t);
          savedPrompts = (case PROMPTS result of None \<Rightarrow> [] | Some ps \<Rightarrow> ps);
          chunks = (case PROMPT_CHUNKS result of None \<Rightarrow> Map.empty | Some m \<Rightarrow> m)
      in case mapE (processEntry chunks) savedPrompts of
           Inl e \<Rightarrow> Inl e
         | Inr prompts \<Rightarrow> Inr (prompts, storageType))"

text \<open>
  \<open>getPrompts\<close> reads the sync area and, when it holds neither the prompts nor the
  storage type, the local area. Its promise has no \<open>reject\<close>; an exception in
  \<open>processPrompts\<close> is thrown inside the callback of \<open>storage.get\<close>, \<open>resolve\<close> is not
  reached and the promise is never settled: the result \<open>None\<close>.
\<close>

definition settled :: "exn + 'a \<Rightarrow> 'a option" where
  "settled r = (case r of Inl e \<Rightarrow> None | Inr v \<Rightarrow> Some v)"

definition getPrompts :: "chrome \<Rightarrow> (Prompt list \<times> StorageType) option \<times> chrome" where
  "getPrompts st =
     (let (result, st1) = storageGet SyncArea st in
      if PROMPTS result = None \<and> STORAGE_TYPE result = None
      then (let (localResult, st2) = storageGet LocalArea st1
            in (settled (processPrompts localResult), st2))
      else (settled (processPrompts result), st1))"

text \<open>
  Two names for the statements about \<open>getPrompts\<close>: \<open>readItems st\<close> is the result object
  that \<open>processPrompts\<close> receives in state \<open>st\<close>, and \<open>storedChunks\<close> its fragment map.
\<close>

definition readItems :: "chrome \<Rightarrow> items" where
  "readItems st =
     (if PROMPTS (sync st) = None \<and> STORAGE_TYPE (sync st) = None then local st else sync st)"

definition storedChunks :: "items \<Rightarrow> string \<Rightarrow> string list option" where
  "storedChunks result = (case PROMPT_CHUNKS result of None \<Rightarrow> Map.empty | Some m \<Rightarrow> m)"

subsection \<open>savePrompts\<close>

text \<open>\<open>allTags\<close>: a \<open>Set\<close> keeps each tag once, in the order of first insertion.\<close>

definition addTag :: "string list \<Rightarrow> string \<Rightarrow> string list" where
  "addTag allTags tag = (if tag \<in> set allTags then allTags else allTags @ [tag])"

definition collectTags :: "Prompt list \<Rightarrow> string list" where
  "collectTags prompts =
     foldl (\<lambda>allTags prompt.
              case tags prompt of None \<Rightarrow> allTags | Some ts \<Rightarrow> foldl addTag allTags ts)
           [] prompts"

text \<open>
  The loop \<open>prompts.forEach\<close> that sorts the records into \<open>regularPrompts\<close>,
  \<open>chunkedPromptsMetadata\<close> and \<open>allChunks\<close>. The logging line reads
  \<open>prompt.content.length\<close> and throws for a record without content, before anything
  is written. \<open>allChunks[prompt.id] = chunks\<close> is an assignment to a property of a plain
  object.
\<close>

fun sortPrompts ::
  "(Prompt \<Rightarrow> nat) \<Rightarrow> Prompt list
   \<Rightarrow> Prompt list \<times> Prompt list \<times> (string \<Rightarrow> string list option)
   \<Rightarrow> exn + (Prompt list \<times> Prompt list \<times> (string \<Rightarrow> string list option))" where
  "sortPrompts sz [] acc = Inr acc"
| "sortPrompts sz (prompt # rest) (regularPrompts, chunkedPromptsMetadata, allChunks) =
     (case content prompt of
        None \<Rightarrow> Inl (TypeError ''Cannot read properties of undefined (reading 'length')'')
      | Some s \<Rightarrow>
          if promptSizeKB sz prompt > MAX_PROMPT_SIZE_KB
          then
            (case chunkPrompt sz prompt of
               Inl e \<Rightarrow> Inl e
             | Inr (metadata, chunks) \<Rightarrow>
                 (case metadata of
                    Some m \<Rightarrow>
                      if length chunks > 0
                      then sortPrompts sz rest
                             (regularPrompts, chunkedPromptsMetadata @ [m],
                              setProperty allChunks (id' prompt) chunks)
                      else sortPrompts sz rest (regularPrompts, chunkedPromptsMetadata, allChunks)
                  | None \<Rightarrow> sortPrompts sz rest (regularPrompts, chunkedPromptsMetadata, allChunks)))
          else sortPrompts sz rest (regularPrompts @ [prompt], chunkedPromptsMetadata, allChunks))"

definition dataToSave :: "(Prompt \<Rightarrow> nat) \<Rightarrow> Prompt list \<Rightarrow> StorageType \<Rightarrow> exn + items" where
  "dataToSave sz prompts storageType =
     (let allTags = collectTags prompts in
      case sortPrompts sz prompts ([], [], Map.empty) of
        Inl e \<Rightarrow> Inl e
      | Inr (regularPrompts, chunkedPromptsMetadata, allChunks) \<Rightarrow>
          Inr \<lparr>PROMPTS = Some (regularPrompts @ chunkedPromptsMetadata),
               STORAGE_TYPE = Some storageType,
               NOTION_CONFIG = None,
               SYNC_STATUS = None,
               TAGS = Some allTags,
               PROMPT_CHUNKS = Some allChunks\<rparr>)"

text \<open>\<open>s.includes(sub)\<close>, and \<open>message?.includes(sub)\<close> for an optional message.\<close>

fun includesStr :: "string \<Rightarrow> string \<Rightarrow> bool" where
  "includesStr [] sub = (sub = [])"
| "includesStr (c # cs) sub = (take (length sub) (c # cs) = sub \<or> includesStr cs sub)"

definition messageIncludes :: "string option \<Rightarrow> string \<Rightarrow> bool" where
  "messageIncludes m sub = (case m of None \<Rightarrow> False | Some s \<Rightarrow> includesStr s sub)"

definition quotaExceeded :: "string option \<Rightarrow> bool" where
  "quotaExceeded m =
     (messageIncludes m ''QUOTA_BYTES'' \<or> messageIncludes m ''QUOTA_BYTES_PER_ITEM'')"

definition savePrompts ::
  "(Prompt \<Rightarrow> nat) \<Rightarrow> lastError \<Rightarrow> Prompt list \<Rightarrow> StorageType \<Rightarrow> chrome \<Rightarrow> (exn + unit) \<times> chrome" where
  "savePrompts sz le prompts storageType st =
     (case dataToSave sz prompts storageType of
        Inl e \<Rightarrow> (Inl e, st)
      | Inr d \<Rightarrow>
          (let storage = (if storageType = Local then LocalArea else SyncArea);
               (err, st1) = storageSet le storage d st
           in case err of
                None \<Rightarrow> (Inr (), st1)
              | Some m \<Rightarrow>
                  if storageType \<noteq> Local \<and> quotaExceeded m
                  then
                    (let (err2, st2) = storageSet le LocalArea d st1
                     in case err2 of
                          None \<Rightarrow> (Inr (), st2)
                        | Some m2 \<Rightarrow>
                            (Inl (Error ''Storage quota exceeded. Please reduce prompt content size or clear some prompts.''),
                             st2))
                  else (Inl (LastError m), st1)))"


subsection \<open>Notion configuration and sync status\<close>

definition getNotionConfig :: "chrome \<Rightarrow> NotionConfig option \<times> chrome" where
  "getNotionConfig st = (let (result, st1) = storageGet SyncArea st in (NOTION_CONFIG result, st1))"

definition getSyncStatus :: "chrome \<Rightarrow> SyncStatus \<times> chrome" where
  "getSyncStatus st =
     (let (result, st1) = storageGet SyncArea st in
      (case SYNC_STATUS result of
         None \<Rightarrow> \<lparr>lastSynced = None, inProgress = False, error = None\<rparr>
       | Some status \<Rightarrow> status,
       st1))"

text \<open>
  \<open>Partial<SyncStatus>\<close>: each field is absent (\<open>None\<close>) or given; a given \<open>lastSynced\<close>
  or \<open>error\<close> may be \<open>null\<close>.
\<close>

record PartialSyncStatus =
  newLastSynced :: "int option option"
  newInProgress :: "bool option"
  newError :: "string option option"

definition updateSyncStatus :: "lastError \<Rightarrow> PartialSyncStatus \<Rightarrow> chrome \<Rightarrow> (exn + unit) \<times> chrome" where
  "updateSyncStatus le status st =
     (let (currentStatus, st1) = getSyncStatus st;
          newStatus =
            \<lparr>lastSynced = (case newLastSynced status of None \<Rightarrow> lastSynced currentStatus | Some v \<Rightarrow> v),
             inProgress = (case newInProgress status of None \<Rightarrow> inProgress currentStatus | Some v \<Rightarrow> v),
             error = (case newError status of None \<Rightarrow> error currentStatus | Some v \<Rightarrow> v)\<rparr>;
          (err, st2) = storageSet le SyncArea (noItems\<lparr>SYNC_STATUS := Some newStatus\<rparr>) st1
      in case err of
           None \<Rightarrow> (Inr (), st2)
         | Some m \<Rightarrow> (Inl (LastError m), st2))"

subsection \<open>syncWithNotion\<close>

text \<open>
  \<open>notionSync\<close> is \<open>syncWithNotion\<close> of ./notion, the remote exchange: it takes the
  current records and returns the updated list or throws; it is a parameter, and may
  itself use the storage. \<open>now\<close> is \<open>Date.now()\<close>.
\<close>

type_synonym notionSync = "Prompt list \<Rightarrow> chrome \<Rightarrow> (exn + Prompt list) \<times> chrome"

text \<open>The body of the \<open>try\<close> block.\<close>

definition syncTry ::
  "(Prompt \<Rightarrow> nat) \<Rightarrow> lastError \<Rightarrow> notionSync \<Rightarrow> int \<Rightarrow> Prompt list \<Rightarrow> chrome
   \<Rightarrow> (exn + Prompt list) \<times> chrome" where
  "syncTry sz le notionSync now prompts st =
     (case updateSyncStatus le
             \<lparr>newLastSynced = None, newInProgress = Some True, newError = Some None\<rparr> st of
        (Inl e, st1) \<Rightarrow> (Inl e, st1)
      | (Inr u, st1) \<Rightarrow>
          (case notionSync prompts st1 of
             (Inl e, st2) \<Rightarrow> (Inl e, st2)
           | (Inr syncedPrompts, st2) \<Rightarrow>
               (case savePrompts sz le syncedPrompts Notion st2 of
                  (Inl e, st3) \<Rightarrow> (Inl e, st3)
                | (Inr u, st3) \<Rightarrow>
                    (case updateSyncStatus le
                            \<lparr>newLastSynced = Some (Some now), newInProgress = Some False,
                             newError = None\<rparr> st3 of
                       (Inl e, st4) \<Rightarrow> (Inl e, st4)
                     | (Inr u, st4) \<Rightarrow> (Inr syncedPrompts, st4)))))"

text \<open>The \<open>catch\<close> block: the status update is awaited, then the error is thrown again.\<close>

definition syncCatch :: "lastError \<Rightarrow> exn \<Rightarrow> chrome \<Rightarrow> (exn + Prompt list) \<times> chrome" where
  "syncCatch le e st =
     (case updateSyncStatus le
             \<lparr>newLastSynced = None, newInProgress = Some False,
              newError = Some (Some (if instanceofError e then message e
                                     else ''Unknown error during sync''))\<rparr> st of
        (Inl e2, st1) \<Rightarrow> (Inl e2, st1)
      | (Inr u, st1) \<Rightarrow> (Inl e, st1))"

text \<open>\<open>await getPrompts()\<close> comes first: when that promise is never settled, nothing follows.\<close>

definition syncWithNotion ::
  "(Prompt \<Rightarrow> nat) \<Rightarrow> lastError \<Rightarrow> notionSync \<Rightarrow> int \<Rightarrow> chrome
   \<Rightarrow> (exn + Prompt list) option \<times> chrome" where
  "syncWithNotion sz le notionSync now st =
     (case getPrompts st of
        (None, st1) \<Rightarrow> (None, st1)
      | (Some (prompts, storageType), st1) \<Rightarrow>
          (let (config, st2) = getNotionConfig st1
           in case config of
                None \<Rightarrow> (Some (Inl (Error ''Notion is not configured'')), st2)
              | Some c \<Rightarrow>
                  (case syncTry sz le notionSync now prompts st2 of
                     (Inr syncedPrompts, st3) \<Rightarrow> (Some (Inr syncedPrompts), st3)
                   | (Inl e, st3) \<Rightarrow>
                       (case syncCatch le e st3 of (r, st4) \<Rightarrow> (Some r, st4)))))"

subsection \<open>searchPrompts\<close>

text \<open>
  \<open>toLowerCase\<close> and \<open>trim\<close> on code units 0..255: the capital letters A-Z and the
  capital letters of Latin-1 (192..222 without the multiplication sign 215) move by 32;
  white space is tab, line feed, vertical tab, form feed, carriage return, space and the
  no-break space.
\<close>

definition lowerChar :: "char \<Rightarrow> char" where
  "lowerChar c =
     (let n = (of_char c :: nat) in
      if (65 \<le> n \<and> n \<le> 90) \<or> (192 \<le> n \<and> n \<le> 222 \<and> n \<noteq> 215)
      then char_of (n + 32) else c)"

definition toLowerCase :: "string \<Rightarrow> string" where
  "toLowerCase s = map lowerChar s"

definition isWhiteSpace :: "char \<Rightarrow> bool" where
  "isWhiteSpace c =
     (let n = (of_char c :: nat) in
      n = 9 \<or> n = 10 \<or> n = 11 \<or> n = 12 \<or> n = 13 \<or> n = 32 \<or> n = 160)"

definition trim :: "string \<Rightarrow> string" where
  "trim s = rev (dropWhile isWhiteSpace (rev (dropWhile isWhiteSpace s)))"

text \<open>
  The callback of \<open>prompts.filter\<close>; \<open>wanted\<close> is the parameter \<open>tags\<close>. Both
  \<open>titleMatch\<close> and \<open>contentMatch\<close> are computed before the disjunction, so a record
  without content throws.
\<close>

definition matchesSearch :: "string \<Rightarrow> string list \<Rightarrow> Prompt \<Rightarrow> exn + bool" where
  "matchesSearch normalizedQuery wanted prompt =
     (if length wanted > 0 \<and>
         (case tags prompt of None \<Rightarrow> True
          | Some ts \<Rightarrow> \<not> list_ex (\<lambda>tag. tag \<in> set ts) wanted)
      then Inr False
      else if normalizedQuery \<noteq> []
      then
        (case content prompt of
           None \<Rightarrow> Inl (TypeError ''Cannot read properties of undefined (reading 'toLowerCase')'')
         | Some s \<Rightarrow>
             (let titleMatch = includesStr (toLowerCase (title prompt)) normalizedQuery;
                  contentMatch = includesStr (toLowerCase s) normalizedQuery
              in Inr (titleMatch \<or> contentMatch)))
      else Inr True)"

text \<open>\<open>Array.prototype.filter\<close> with a callback that can throw.\<close>

fun filterE :: "('a \<Rightarrow> exn + bool) \<Rightarrow> 'a list \<Rightarrow> exn + 'a list" where
  "filterE f [] = Inr []"
| "filterE f (x # xs) =
     (case f x of
        Inl e \<Rightarrow> Inl e
      | Inr b \<Rightarrow>
          (case filterE f xs of
             Inl e \<Rightarrow> Inl e
           | Inr ys \<Rightarrow> Inr (if b then x # ys else ys)))"

definition searchPrompts ::
  "string \<Rightarrow> string list \<Rightarrow> chrome \<Rightarrow> (exn + Prompt list) option \<times> chrome" where
  "searchPrompts query wanted st =
     (case getPrompts st of
        (None, st1) \<Rightarrow> (None, st1)
      | (Some (prompts, storageType), st1) \<Rightarrow>
          if query = [] \<and> length wanted = 0 then (Some (Inr prompts), st1)
          else
            (let normalizedQuery = trim (toLowerCase query)
             in (Some (filterE (matchesSearch normalizedQuery wanted) prompts), st1)))"

subsection \<open>importPromptsFromJson\<close>

text \<open>
  \<open>JSON.parse\<close> is the platform's; it is the parameter \<open>parse\<close>, which throws a
  \<open>SyntaxError\<close> or returns a value. Of the values, an array of objects is \<open>JArray\<close>, with
  the three properties the validation tests as options (\<open>None\<close> when the object lacks
  them); every other value is \<open>JOther\<close>.
\<close>

record ImportedPrompt =
  importedId :: "string option"
  importedTitle :: "string option"
  importedContent :: "string option"
  importedTags :: "string list option"
  importedCreatedAt :: int
  importedUpdatedAt :: int
  importedChunkCount :: "nat option"
  importedOriginalSize :: "rat option"

datatype json = JArray "ImportedPrompt list" | JOther

text \<open>\<open>!prompt.id\<close> holds for an absent property and for the empty string.\<close>

definition falsy :: "string option \<Rightarrow> bool" where
  "falsy v = (case v of None \<Rightarrow> True | Some s \<Rightarrow> s = [])"

definition asPrompt :: "ImportedPrompt \<Rightarrow> Prompt" where
  "asPrompt r =
     \<lparr>id' = (case importedId r of None \<Rightarrow> [] | Some s \<Rightarrow> s),
      title = (case importedTitle r of None \<Rightarrow> [] | Some s \<Rightarrow> s),
      content = importedContent r,
      tags = importedTags r,
      createdAt = importedCreatedAt r,
      updatedAt = importedUpdatedAt r,
      chunkCount = importedChunkCount r,
      originalSize = importedOriginalSize r\<rparr>"

text \<open>
  The validating \<open>forEach\<close>, from index \<open>index\<close> on: the first element that fails
  throws. The elements that pass are records with the three properties set.
\<close>

fun validatePrompts :: "nat \<Rightarrow> ImportedPrompt list \<Rightarrow> exn + Prompt list" where
  "validatePrompts index [] = Inr []"
| "validatePrompts index (prompt # rest) =
     (if falsy (importedId prompt) \<or> falsy (importedTitle prompt) \<or> falsy (importedContent prompt)
      then Inl (Error (''Invalid prompt format at index '' @ showNat index
                       @ '': Missing required fields (id, title, or content)''))
      else
        (case validatePrompts (Suc index) rest of
           Inl e \<Rightarrow> Inl e
         | Inr ps \<Rightarrow> Inr (asPrompt prompt # ps)))"

text \<open>
  A JavaScript \<open>Map\<close> as the list of its entries in insertion order: \<open>set\<close> on a key
  that is present replaces the value in place, and on a new key appends the entry.
\<close>

fun mapSet :: "'k \<Rightarrow> 'v \<Rightarrow> ('k \<times> 'v) list \<Rightarrow> ('k \<times> 'v) list" where
  "mapSet k v [] = [(k, v)]"
| "mapSet k v ((k', v') # m) = (if k' = k then (k, v) # m else (k', v') # mapSet k v m)"

definition mergePrompts :: "Prompt list \<Rightarrow> Prompt list \<Rightarrow> Prompt list" where
  "mergePrompts currentPrompts importedPrompts =
     (let currentPromptsMap = foldl (\<lambda>m p. mapSet (id' p) p m) [] currentPrompts;
          merged = foldl (\<lambda>m prompt. mapSet (id' prompt) prompt m) currentPromptsMap importedPrompts
      in map snd merged)"

definition importPromptsFromJson ::
  "(string \<Rightarrow> exn + json) \<Rightarrow> (Prompt \<Rightarrow> nat) \<Rightarrow> lastError \<Rightarrow> string \<Rightarrow> chrome
   \<Rightarrow> (exn + Prompt list) option \<times> chrome" where
  "importPromptsFromJson parse sz le json st =
     (case parse json of
        Inl e \<Rightarrow> (Some (Inl e), st)
      | Inr JOther \<Rightarrow> (Some (Inl (Error ''Invalid format: Expected an array of prompts'')), st)
      | Inr (JArray elements) \<Rightarrow>
          (case validatePrompts 0 elements of
             Inl e \<Rightarrow> (Some (Inl e), st)
           | Inr importedPrompts \<Rightarrow>
               (case getPrompts st of
                  (None, st1) \<Rightarrow> (None, st1)
                | (Some (currentPrompts, storageType), st1) \<Rightarrow>
                    (let mergedPrompts = mergePrompts currentPrompts importedPrompts
                     in case savePrompts sz le mergedPrompts storageType st1 of
                          (Inl e, st2) \<Rightarrow> (Some (Inl e), st2)
                        | (Inr u, st2) \<Rightarrow> (Some (Inr mergedPrompts), st2)))))"

subsection \<open>Names used in the statements\<close>

text \<open>
  Names for the statements about \<open>savePrompts\<close>: a record is oversized when its size
  estimate exceeds the threshold; \<open>fragments\<close> are the pieces the chunking loop cuts its
  content into and \<open>shellOf\<close> its metadata shell; \<open>regularOf\<close> are the records stored
  whole, \<open>chunkedOf\<close> the ones stored as a shell with fragments, \<open>chunkMapOf\<close> the
  fragment map after their entries are written in order, and \<open>savedData\<close> the object
  \<open>dataToSave\<close> builds from them.
\<close>

definition oversized :: "(Prompt \<Rightarrow> nat) \<Rightarrow> Prompt \<Rightarrow> bool" where
  "oversized sz p = (MAX_PROMPT_SIZE_KB < promptSizeKB sz p)"

definition fragments :: "Prompt \<Rightarrow> string list" where
  "fragments p = (case content p of None \<Rightarrow> [] | Some s \<Rightarrow> chunkLoop s 0 [])"

definition shellOf :: "(Prompt \<Rightarrow> nat) \<Rightarrow> Prompt \<Rightarrow> Prompt" where
  "shellOf sz p =
     p\<lparr>content := None, chunkCount := Some (length (fragments p)),
       originalSize := Some (promptSizeKB sz p)\<rparr>"

definition regularOf :: "(Prompt \<Rightarrow> nat) \<Rightarrow> Prompt list \<Rightarrow> Prompt list" where
  "regularOf sz ps = filter (\<lambda>p. \<not> oversized sz p) ps"

definition chunkedOf :: "(Prompt \<Rightarrow> nat) \<Rightarrow> Prompt list \<Rightarrow> Prompt list" where
  "chunkedOf sz ps = filter (\<lambda>p. oversized sz p \<and> fragments p \<noteq> []) ps"

definition chunkMapOf ::
  "Prompt list \<Rightarrow> (string \<Rightarrow> string list option) \<Rightarrow> string \<Rightarrow> string list option" where
  "chunkMapOf ps c = foldl (\<lambda>c p. setProperty c (id' p) (fragments p)) c ps"

definition savedData :: "(Prompt \<Rightarrow> nat) \<Rightarrow> Prompt list \<Rightarrow> StorageType \<Rightarrow> items" where
  "savedData sz ps t =
     \<lparr>PROMPTS = Some (regularOf sz ps @ map (shellOf sz) (chunkedOf sz ps)),
      STORAGE_TYPE = Some t,
      NOTION_CONFIG = None,
      SYNC_STATUS = None,
      TAGS = Some (collectTags ps),
      PROMPT_CHUNKS = Some (chunkMapOf (chunkedOf sz ps) Map.empty)\<rparr>"





text \<open>
  The search predicate in the words of the specification: the tag set is empty or the
  record has one of the required tags, and the query is empty or is a case-insensitive
  substring of the title or the content.
\<close>

definition specMatches :: "string \<Rightarrow> string list \<Rightarrow> Prompt \<Rightarrow> bool" where
  "specMatches query wanted p =
     ((wanted = []
       \<or> (case tags p of None \<Rightarrow> False | Some ts \<Rightarrow> \<exists>t \<in> set wanted. t \<in> set ts))
      \<and> (query = []
         \<or> sublist (toLowerCase query) (toLowerCase (title p))
         \<or> (case content p of None \<Rightarrow> False
             | Some s \<Rightarrow> sublist (toLowerCase query) (toLowerCase s))))"

subsection \<open>Concrete records, states and platforms\<close>

text \<open>The large record of test-chunking.js, without its emoji tail.\<close>

definition largePrompt :: Prompt where
  "largePrompt =
     \<lparr>id' = ''test-large-prompt'',
      title = ''Test Large Prompt for Chunking'',
      content = Some (replicate 10000 CHR ''A''),
      tags = Some [''test'', ''large'', ''chunking''],
      createdAt = 1700000000000,
      updatedAt = 1700000000000,
      chunkCount = None,
      originalSize = None\<rparr>"

text \<open>A record with an empty content and a title of 8000 characters.\<close>

definition emptyLarge :: Prompt where
  "emptyLarge =
     \<lparr>id' = ''empty-large'', title = replicate 8000 CHR ''T'', content = Some [],
      tags = Some [''z''], createdAt = 7, updatedAt = 8, chunkCount = None, originalSize = None\<rparr>"

text \<open>
  A stored collection with a shell whose fragments are incomplete (three declared, two
  stored), a regular record, and a shell with its two fragments.
\<close>

definition shellPrompt :: Prompt where
  "shellPrompt =
     \<lparr>id' = ''big'', title = ''Big'', content = None, tags = Some [''x''],
      createdAt = 1, updatedAt = 2, chunkCount = Some 3, originalSize = Some 9\<rparr>"

definition smallPrompt :: Prompt where
  "smallPrompt =
     \<lparr>id' = ''small'', title = ''Small'', content = Some ''hello'', tags = Some [''y''],
      createdAt = 3, updatedAt = 4, chunkCount = None, originalSize = None\<rparr>"

definition chunkedPrompt :: Prompt where
  "chunkedPrompt =
     \<lparr>id' = ''ok'', title = ''Chunked'', content = None, tags = None,
      createdAt = 5, updatedAt = 6, chunkCount = Some 2, originalSize = Some 8\<rparr>"

definition brokenItems :: items where
  "brokenItems =
     noItems\<lparr>PROMPTS := Some [shellPrompt, smallPrompt, chunkedPrompt],
             STORAGE_TYPE := Some Notion,
             PROMPT_CHUNKS := Some [''big'' \<mapsto> [''aaa'', ''bbb''], ''ok'' \<mapsto> [''ab'', ''cd'']]\<rparr>"

definition brokenStore :: chrome where
  "brokenStore = \<lparr>sync = brokenItems, local = noItems, calls = []\<rparr>"

definition emptyStore :: chrome where
  "emptyStore = \<lparr>sync = noItems, local = noItems, calls = []\<rparr>"

text \<open>
  A stored shell with a title of 8000 characters whose fragments are lost, and the
  record that \<open>getPrompts\<close> returns for it.
\<close>

definition wideShell :: Prompt where
  "wideShell =
     \<lparr>id' = ''wide'', title = replicate 8000 CHR ''T'', content = None, tags = Some [''x''],
      createdAt = 1, updatedAt = 2, chunkCount = Some 3, originalSize = Some 9\<rparr>"

definition wideStore :: chrome where
  "wideStore =
     \<lparr>sync = noItems,
      local = noItems\<lparr>PROMPTS := Some [wideShell], STORAGE_TYPE := Some Local,
                        PROMPT_CHUNKS := Some Map.empty\<rparr>,
      calls = []\<rparr>"

definition degradedWide :: Prompt where
  "degradedWide = wideShell\<lparr>content := Some missingChunks\<rparr>"

text \<open>
  A stored shell with the id \<open>constructor\<close> that declares one fragment and has none,
  next to a regular record; and the same shell under the id \<open>lost\<close>.
\<close>

definition constructorShell :: Prompt where
  "constructorShell =
     \<lparr>id' = ''constructor'', title = ''Lost'', content = None, tags = Some [''x''],
      createdAt = 1, updatedAt = 2, chunkCount = Some 1, originalSize = Some 9\<rparr>"

definition constructorStore :: chrome where
  "constructorStore =
     \<lparr>sync = noItems\<lparr>PROMPTS := Some [constructorShell, smallPrompt],
                       STORAGE_TYPE := Some Notion, PROMPT_CHUNKS := Some Map.empty\<rparr>,
      local = noItems, calls = []\<rparr>"

definition lostStore :: chrome where
  "lostStore =
     \<lparr>sync = noItems\<lparr>PROMPTS := Some [constructorShell\<lparr>id' := ''lost''\<rparr>, smallPrompt],
                       STORAGE_TYPE := Some Notion, PROMPT_CHUNKS := Some Map.empty\<rparr>,
      local = noItems, calls = []\<rparr>"

text \<open>What \<open>savePrompts\<close> writes for the small record alone under the storage type "notion".\<close>

definition smallData :: items where
  "smallData =
     \<lparr>PROMPTS = Some [smallPrompt], STORAGE_TYPE = Some Notion, NOTION_CONFIG = None,
      SYNC_STATUS = None, TAGS = Some [''y''], PROMPT_CHUNKS = Some Map.empty\<rparr>"

text \<open>A collection to search.\<close>

definition fooPrompt :: Prompt where
  "fooPrompt =
     \<lparr>id' = ''p1'', title = ''Foobar helper'', content = Some ''Write a function.'',
      tags = Some [''Coding & Development''],
      createdAt = 10, updatedAt = 11, chunkCount = None, originalSize = None\<rparr>"

definition otherPrompt :: Prompt where
  "otherPrompt =
     \<lparr>id' = ''p2'', title = ''Poem'', content = Some ''Write a poem about the sea.'',
      tags = Some [''Writing''],
      createdAt = 12, updatedAt = 13, chunkCount = None, originalSize = None\<rparr>"

definition searchStore :: chrome where
  "searchStore =
     \<lparr>sync = noItems\<lparr>PROMPTS := Some [fooPrompt, otherPrompt], STORAGE_TYPE := Some Notion\<rparr>,
      local = noItems, calls = []\<rparr>"

text \<open>Two states with a sync status left in progress, without and with a credential.\<close>

definition staleStatus :: SyncStatus where
  "staleStatus = \<lparr>lastSynced = None, inProgress = True, error = None\<rparr>"

definition unconfiguredStore :: chrome where
  "unconfiguredStore =
     \<lparr>sync = noItems\<lparr>PROMPTS := Some [smallPrompt], STORAGE_TYPE := Some Notion,
                       SYNC_STATUS := Some staleStatus\<rparr>,
      local = noItems, calls = []\<rparr>"

definition configuredStore :: chrome where
  "configuredStore =
     \<lparr>sync = noItems\<lparr>PROMPTS := Some [smallPrompt], STORAGE_TYPE := Some Notion,
                       NOTION_CONFIG := Some \<lparr>apiKey = ''secret'', pageId = ''page''\<rparr>,
                       SYNC_STATUS := Some staleStatus\<rparr>,
      local = noItems, calls = []\<rparr>"

text \<open>Two platforms: one whose sync area is over quota, one where every write fails.\<close>

definition quotaFailure :: lastError where
  "quotaFailure a d st =
     (case a of SyncArea \<Rightarrow> Some (Some ''QUOTA_BYTES_PER_ITEM quota exceeded'') | LocalArea \<Rightarrow> None)"

definition otherFailure :: lastError where
  "otherFailure a d st = Some (Some ''The browser is shutting down.'')"

text \<open>
  Platforms and remote exchanges for the sync: no write fails; every write of the
  prompts fails with a message that names no quota; the remote exchange fails; the remote
  exchange returns what it was given.
\<close>

definition noFailure :: lastError where
  "noFailure a d st = None"

definition promptsFailure :: lastError where
  "promptsFailure a d st = (if PROMPTS d \<noteq> None then Some (Some ''An unexpected error occurred'') else None)"

definition unreachable :: notionSync where
  "unreachable prompts st = (Inl (Error ''Notion API unreachable''), st)"

definition echo :: notionSync where
  "echo prompts st = (Inr prompts, st)"








text \<open>
  An import of one record with the id \<open>constructor\<close> and a \<open>chunkCount\<close> of 1: what
  \<open>JSON.parse\<close> returns for its text, and the record.
\<close>

definition constructorImported :: ImportedPrompt where
  "constructorImported =
     \<lparr>importedId = Some ''constructor'', importedTitle = Some ''Lost'',
      importedContent = Some ''c'', importedTags = None,
      importedCreatedAt = 1, importedUpdatedAt = 2,
      importedChunkCount = Some 1, importedOriginalSize = None\<rparr>"

definition constructorJson :: string where
  "constructorJson =
     ''[{\"id\":\"constructor\",\"title\":\"Lost\",\"content\":\"c\",\"createdAt\":1,\"updatedAt\":2,\"chunkCount\":1}]''"

definition parseConstructor :: "string \<Rightarrow> exn + json" where
  "parseConstructor s =
     (if s = constructorJson then Inr (JArray [constructorImported])
      else Inl (SyntaxError ''Unexpected token''))"

definition constructorRecord :: Prompt where
  "constructorRecord =
     \<lparr>id' = ''constructor'', title = ''Lost'', content = Some ''c'', tags = None,
      createdAt = 1, updatedAt = 2, chunkCount = Some 1, originalSize = None\<rparr>"




text \<open>The large record under the id \<open>__proto__\<close>.\<close>

definition protoPrompt :: Prompt where
  "protoPrompt = largePrompt\<lparr>id' := ''__proto__''\<rparr>"


section \<open>Properties\<close>

subsection \<open>The chunking loop\<close>

lemma chunkLoop_acc: "chunkLoop s i acc = acc @ chunkLoop s i []"
proof (induction "length s - i" arbitrary: i acc rule: less_induct)
  case less
  show ?case
  proof (cases "i < length s")
    case True
    let ?j = "i + CHUNK_SIZE_CHARS"
    let ?c = "slice s i ?j"
    have d: "length s - ?j < length s - i"
      using True by (simp add: CHUNK_SIZE_CHARS_def)
    have "chunkLoop s i acc = chunkLoop s ?j (acc @ [?c])"
      using True by (subst chunkLoop.simps) simp
    also have "\<dots> = (acc @ [?c]) @ chunkLoop s ?j []"
      using less [OF d] .
    also have "\<dots> = acc @ chunkLoop s ?j ([] @ [?c])"
      using less [OF d, of "[] @ [?c]"] by simp
    also have "chunkLoop s ?j ([] @ [?c]) = chunkLoop s i []"
      using True by (subst (2) chunkLoop.simps) simp
    finally show ?thesis .
  next
    case False
    then show ?thesis by (subst (1 2) chunkLoop.simps) simp
  qed
qed


lemma chunkLoop_step:
  "i < length s \<Longrightarrow> chunkLoop s i [] = slice s i (i + CHUNK_SIZE_CHARS) # chunkLoop s (i + CHUNK_SIZE_CHARS) []"
  by (subst chunkLoop.simps, subst chunkLoop_acc) simp

lemma chunkLoop_done: "\<not> i < length s \<Longrightarrow> chunkLoop s i [] = []"
  by (subst chunkLoop.simps) simp






lemma concat_chunkLoop: "concat (chunkLoop s i []) = drop i s"
proof (induction "length s - i" arbitrary: i rule: less_induct)
  case less
  show ?case
  proof (cases "i < length s")
    case True
    let ?j = "i + CHUNK_SIZE_CHARS"
    have d: "length s - ?j < length s - i"
      using True by (simp add: CHUNK_SIZE_CHARS_def)
    have "concat (chunkLoop s i []) = slice s i ?j @ concat (chunkLoop s ?j [])"
      by (subst chunkLoop_step [OF True]) (simp only: concat.simps)
    also have "\<dots> = slice s i ?j @ drop ?j s"
      by (simp only: less [OF d])
    also have "\<dots> = take CHUNK_SIZE_CHARS (drop i s) @ drop CHUNK_SIZE_CHARS (drop i s)"
      by (simp add: slice_def add.commute)
    finally show ?thesis by (simp only: append_take_drop_id)
  next
    case False
    then have "chunkLoop s i [] = []" by (rule chunkLoop_done)
    with False show ?thesis by simp
  qed
qed

lemma chunkLoop_lengths:
  "k < length (chunkLoop s i []) \<Longrightarrow>
     length (chunkLoop s i [] ! k) \<le> CHUNK_SIZE_CHARS \<and>
     0 < length (chunkLoop s i [] ! k) \<and>
     (Suc k < length (chunkLoop s i []) \<longrightarrow> length (chunkLoop s i [] ! k) = CHUNK_SIZE_CHARS)"
proof (induction "length s - i" arbitrary: i k rule: less_induct)
  case less
  show ?case
  proof (cases "i < length s")
    case True
    let ?j = "i + CHUNK_SIZE_CHARS"
    define rest where "rest = chunkLoop s ?j []"
    have d: "length s - ?j < length s - i"
      using True by (simp add: CHUNK_SIZE_CHARS_def)
    have st: "chunkLoop s i [] = slice s i ?j # rest"
      unfolding rest_def by (rule chunkLoop_step [OF True])
    show ?thesis
    proof (cases k)
      case 0
      have l: "length (slice s i ?j) = min CHUNK_SIZE_CHARS (length s - i)"
        by (simp add: slice_def)
      have "rest \<noteq> [] \<Longrightarrow> ?j < length s"
        unfolding rest_def using chunkLoop_done [of ?j s] by blast
      then have "0 < length rest \<Longrightarrow> length (slice s i ?j) = CHUNK_SIZE_CHARS"
        using l by auto
      moreover have "0 < length (slice s i ?j)" "length (slice s i ?j) \<le> CHUNK_SIZE_CHARS"
        using True l by (simp_all add: CHUNK_SIZE_CHARS_def)
      ultimately show ?thesis unfolding st 0 by simp
    next
      case (Suc k')
      then have "k' < length (chunkLoop s ?j [])"
        using less.prems unfolding st rest_def by simp
      from less.hyps [OF d this] show ?thesis unfolding st Suc rest_def by simp
    qed
  next
    case False
    then have "chunkLoop s i [] = []" by (rule chunkLoop_done)
    then show ?thesis using less.prems by simp
  qed
qed

subsection \<open>Chunking and reconstruction\<close>

lemma blobSize_content: "content p = Some s \<Longrightarrow> length s \<le> blobSize p"
proof -
  assume c: "content p = Some s"
  have "length s \<le> sum_list (map charBytes s)"
  proof (induction s)
    case Nil
    show ?case by simp
  next
    case (Cons a s)
    have "1 \<le> charBytes a" by (simp add: charBytes_def Let_def)
    with Cons show ?case by simp
  qed
  then have "length s \<le> jsonField ''content'' (jsonStringBytes s)"
    by (simp add: jsonField_def jsonStringBytes_def)
  also have "\<dots> \<le> sum_list (jsonFields p)"
    using c by (simp add: jsonFields_def)
  finally show ?thesis by (simp add: blobSize_def)
qed

lemma largePrompt_size: "MAX_PROMPT_SIZE_KB < promptSizeKB blobSize largePrompt"
proof -
  have "length (replicate 10000 CHR ''A'') \<le> blobSize largePrompt"
    by (rule blobSize_content) (simp add: largePrompt_def)
  then have "(10000::nat) \<le> blobSize largePrompt" by simp
  then have "(10000::rat) \<le> of_nat (blobSize largePrompt)"
    by (metis of_nat_le_iff of_nat_numeral)
  then show ?thesis by (simp add: MAX_PROMPT_SIZE_KB_def promptSizeKB_def)
qed

text \<open>
  Claim C6. For a record whose size estimate exceeds the threshold, \<open>chunkPrompt\<close>
  returns a metadata shell and the fragments of the content in order: concatenated they
  are the content, their number is the shell's \<open>chunkCount\<close>, each has at most 3000
  characters and each one before the last has exactly 3000.
\<close>

theorem chunkPrompt_fragments:
  assumes big: "MAX_PROMPT_SIZE_KB < promptSizeKB sz p"
    and c: "content p = Some s"
  shows "\<exists>metadata chunks.
           chunkPrompt sz p = Inr (Some metadata, chunks) \<and>
           concat chunks = s \<and>
           chunkCount metadata = Some (length chunks) \<and>
           (\<forall>k < length chunks.
              length (chunks ! k) \<le> 3000 \<and>
              (Suc k < length chunks \<longrightarrow> length (chunks ! k) = 3000))"
proof -
  let ?chunks = "chunkLoop s 0 []"
  let ?m = "p\<lparr>content := None, chunkCount := Some (length ?chunks),
               originalSize := Some (promptSizeKB sz p)\<rparr>"
  have "chunkPrompt sz p = Inr (Some ?m, ?chunks)"
    using big c by (simp add: chunkPrompt_def Let_def)
  moreover have "concat ?chunks = s"
    by (simp add: concat_chunkLoop)
  moreover have "chunkCount ?m = Some (length ?chunks)"
    by simp
  moreover have "\<forall>k < length ?chunks.
      length (?chunks ! k) \<le> 3000 \<and> (Suc k < length ?chunks \<longrightarrow> length (?chunks ! k) = 3000)"
    using chunkLoop_lengths [of _ s 0] by (simp add: CHUNK_SIZE_CHARS_def)
  ultimately show ?thesis by blast
qed

theorem chunkPrompt_fragments_witness:
  "\<exists>metadata chunks.
     chunkPrompt blobSize largePrompt = Inr (Some metadata, chunks) \<and>
     concat chunks = replicate 10000 CHR ''A'' \<and>
     chunkCount metadata = Some (length chunks) \<and>
     (\<forall>k < length chunks.
        length (chunks ! k) \<le> 3000 \<and>
        (Suc k < length chunks \<longrightarrow> length (chunks ! k) = 3000))"
  by (rule chunkPrompt_fragments [OF largePrompt_size]) (simp add: largePrompt_def)


lemma chunkLoop_short:
  assumes "0 < length s" "length s \<le> CHUNK_SIZE_CHARS"
  shows "chunkLoop s 0 [] = [s]"
proof -
  have "chunkLoop s (0 + CHUNK_SIZE_CHARS) [] = []"
    using assms(2) by (intro chunkLoop_done) simp
  with chunkLoop_step [OF assms(1)] assms(2) show ?thesis
    by (simp add: slice_def)
qed

lemma blobSize_title: "length (title p) \<le> blobSize p"
proof -
  have "length s \<le> sum_list (map charBytes s)" for s
  proof (induction s)
    case Nil
    show ?case by simp
  next
    case (Cons a s)
    have "1 \<le> charBytes a" by (simp add: charBytes_def Let_def)
    with Cons show ?case by simp
  qed
  then have "length (title p) \<le> jsonField ''title'' (jsonStringBytes (title p))"
    by (simp add: jsonField_def jsonStringBytes_def le_SucI trans_le_add2)
  also have "\<dots> \<le> sum_list (jsonFields p)"
    by (simp add: jsonFields_def)
  finally show ?thesis by (simp add: blobSize_def)
qed

text \<open>
  Claim C1, amended. For a record with a content whose size estimate exceeds the
  threshold, \<open>reconstructPrompt\<close> applied to the shell and the fragments that
  \<open>chunkPrompt\<close> returns is the record with \<open>chunkCount\<close> and \<open>originalSize\<close> cleared:
  every other field, the content included, is the record's. It is the record itself
  exactly when the record carries neither of the two fields.
\<close>

theorem reconstruct_chunk_roundtrip:
  assumes big: "MAX_PROMPT_SIZE_KB < promptSizeKB sz p"
    and c: "content p = Some s"
  shows "\<exists>metadata chunks.
           chunkPrompt sz p = Inr (Some metadata, chunks) \<and>
           reconstructPrompt metadata chunks = p\<lparr>chunkCount := None, originalSize := None\<rparr> \<and>
           (reconstructPrompt metadata chunks = p
              \<longleftrightarrow> chunkCount p = None \<and> originalSize p = None)"
proof -
  let ?chunks = "chunkLoop s 0 []"
  let ?m = "p\<lparr>content := None, chunkCount := Some (length ?chunks),
               originalSize := Some (promptSizeKB sz p)\<rparr>"
  have a: "chunkPrompt sz p = Inr (Some ?m, ?chunks)"
    using big c by (simp add: chunkPrompt_def Let_def)
  have b: "reconstructPrompt ?m ?chunks = p\<lparr>chunkCount := None, originalSize := None\<rparr>"
    using c by (simp add: reconstructPrompt_def concat_chunkLoop)
  have "p\<lparr>chunkCount := None, originalSize := None\<rparr> = p
      \<longleftrightarrow> chunkCount p = None \<and> originalSize p = None"
    by (cases p) auto
  then have d: "reconstructPrompt ?m ?chunks = p
      \<longleftrightarrow> chunkCount p = None \<and> originalSize p = None"
    by (simp only: b)
  from a b d show ?thesis by blast
qed

text \<open>
  Claim C1, as stated, fails for a record that carries a \<open>chunkCount\<close>. The record that
  \<open>getPrompts\<close> returns for the stored shell with the long title and no fragments keeps
  the shell's \<open>chunkCount\<close> of 3 and exceeds the threshold; chunking it and
  reconstructing gives a record without \<open>chunkCount\<close>, which is not the record.
\<close>

theorem roundtrip_clears_chunkCount_counterexample:
  "fst (getPrompts wideStore) = Some ([degradedWide], Local)
   \<and> MAX_PROMPT_SIZE_KB < promptSizeKB blobSize degradedWide
   \<and> chunkPrompt blobSize degradedWide
       = Inr (Some (degradedWide\<lparr>content := None, chunkCount := Some 1,
                                   originalSize := Some (promptSizeKB blobSize degradedWide)\<rparr>),
              [missingChunks])
   \<and> chunkCount degradedWide = Some 3
   \<and> chunkCount (reconstructPrompt
                   (degradedWide\<lparr>content := None, chunkCount := Some 1,
                                 originalSize := Some (promptSizeKB blobSize degradedWide)\<rparr>)
                   [missingChunks]) = None
   \<and> reconstructPrompt
         (degradedWide\<lparr>content := None, chunkCount := Some 1,
                       originalSize := Some (promptSizeKB blobSize degradedWide)\<rparr>)
         [missingChunks] \<noteq> degradedWide"
proof -
  have f: "id' wideShell = ''wide''" "chunkCount wideShell = Some 3"
    "title wideShell = replicate 8000 CHR ''T''"
    by (simp_all add: wideShell_def)
  have "objectPrototype ''wide'' = None"
    by (simp add: objectPrototype_def)
  then have e: "processEntry Map.empty wideShell = Inr degradedWide"
    by (simp add: processEntry_def getProperty_def f degradedWide_def)
  have a: "fst (getPrompts wideStore) = Some ([degradedWide], Local)"
    by (simp add: getPrompts_def storageGet_def areaItems_def wideStore_def noItems_def
        processPrompts_def settled_def e Let_def)
  have "length (title degradedWide) \<le> blobSize degradedWide"
    by (rule blobSize_title)
  then have "(8000::nat) \<le> blobSize degradedWide"
    by (simp add: degradedWide_def f)
  then have "(8000::rat) \<le> of_nat (blobSize degradedWide)"
    by (metis of_nat_le_iff of_nat_numeral)
  then have b: "MAX_PROMPT_SIZE_KB < promptSizeKB blobSize degradedWide"
    by (simp add: MAX_PROMPT_SIZE_KB_def promptSizeKB_def)
  have l: "chunkLoop missingChunks 0 [] = [missingChunks]"
    by (rule chunkLoop_short) (simp_all add: missingChunks_def CHUNK_SIZE_CHARS_def)
  have c: "chunkPrompt blobSize degradedWide
       = Inr (Some (degradedWide\<lparr>content := None, chunkCount := Some 1,
                                   originalSize := Some (promptSizeKB blobSize degradedWide)\<rparr>),
              [missingChunks])"
    using b by (simp add: chunkPrompt_def l Let_def degradedWide_def)
  have d: "chunkCount degradedWide = Some 3"
    by (simp add: degradedWide_def f)
  have g: "chunkCount (reconstructPrompt
                   (degradedWide\<lparr>content := None, chunkCount := Some 1,
                                 originalSize := Some (promptSizeKB blobSize degradedWide)\<rparr>)
                   [missingChunks]) = None"
    by (simp add: reconstructPrompt_def)
  from d g have "reconstructPrompt
         (degradedWide\<lparr>content := None, chunkCount := Some 1,
                       originalSize := Some (promptSizeKB blobSize degradedWide)\<rparr>)
         [missingChunks] \<noteq> degradedWide"
    by (metis option.distinct(1))
  with a b c d g show ?thesis by (simp only: simp_thms)
qed

theorem reconstruct_chunk_roundtrip_witness:
  "\<exists>metadata chunks.
     chunkPrompt blobSize largePrompt = Inr (Some metadata, chunks) \<and>
     reconstructPrompt metadata chunks = largePrompt"
proof -
  have c: "content largePrompt = Some (replicate 10000 CHR ''A'')"
    and n: "chunkCount largePrompt = None" "originalSize largePrompt = None"
    by (simp_all add: largePrompt_def)
  from reconstruct_chunk_roundtrip [OF largePrompt_size c] n show ?thesis
    by blast
qed


subsection \<open>Loading\<close>

lemma getPrompts_readItems:
  "fst (getPrompts st) = settled (processPrompts (readItems st))"
  by (simp add: getPrompts_def storageGet_def areaItems_def readItems_def Let_def)

lemma getPrompts_areas:
  "sync (snd (getPrompts st)) = sync st" "local (snd (getPrompts st)) = local st"
  by (simp_all add: getPrompts_def storageGet_def Let_def split: prod.splits)

lemma settled_Some: "settled r = Some v \<longleftrightarrow> r = Inr v"
  by (cases r) (simp_all add: settled_def)

lemma settled_None: "settled r = None \<longleftrightarrow> (\<exists>e. r = Inl e)"
  by (cases r) (simp_all add: settled_def)

lemma mapE_Inr: "mapE f xs = Inr ys \<longleftrightarrow> list_all2 (\<lambda>x y. f x = Inr y) xs ys"
proof (induction xs arbitrary: ys)
  case Nil
  show ?case by auto
next
  case (Cons x xs)
  have ih: "list_all2 (\<lambda>x y. f x = Inr y) xs zs \<longleftrightarrow> mapE f xs = Inr zs" for zs
    by (simp add: Cons.IH)
  show ?case
    by (cases ys) (auto simp: ih split: sum.splits)
qed


lemma mapE_map: "\<forall>x \<in> set xs. f x = Inr (g x) \<Longrightarrow> mapE f xs = Inr (map g xs)"
  by (induction xs) simp_all

lemma processPrompts_Inr:
  "processPrompts result = Inr (ps, t) \<longleftrightarrow>
     list_all2 (\<lambda>e r. processEntry (storedChunks result) e = Inr r)
       (case PROMPTS result of None \<Rightarrow> [] | Some saved \<Rightarrow> saved) ps
     \<and> t = (case STORAGE_TYPE result of None \<Rightarrow> Local | Some t' \<Rightarrow> t')"
proof -
  let ?saved = "case PROMPTS result of None \<Rightarrow> [] | Some saved \<Rightarrow> saved"
  let ?r = "mapE (processEntry (storedChunks result)) ?saved"
  have "processPrompts result =
      (case ?r of
         Inl e \<Rightarrow> Inl e
       | Inr prompts \<Rightarrow>
           Inr (prompts, case STORAGE_TYPE result of None \<Rightarrow> Local | Some t' \<Rightarrow> t'))"
    by (simp add: processPrompts_def storedChunks_def Let_def)
  then show ?thesis
    by (cases ?r) (auto simp: mapE_Inr [symmetric])
qed


lemma processEntry_id: "processEntry ch e = Inr r \<Longrightarrow> id' r = id' e"
  by (auto simp: processEntry_def reconstructPrompt_def
      split: option.splits property.splits member.splits if_splits)


lemma readItems_brokenStore: "readItems brokenStore = brokenItems"
  by (simp add: readItems_def brokenStore_def brokenItems_def noItems_def)

lemma not_inherited:
  "objectPrototype ''big'' = None" "objectPrototype ''ok'' = None"
  "objectPrototype ''small'' = None" "objectPrototype ''lost'' = None"
  "objectPrototype ''constructor'' = Some (Method 1)"
  by (simp_all add: objectPrototype_def)

lemma loaded_brokenStore:
  "fst (getPrompts brokenStore) =
     Some ([shellPrompt\<lparr>content := Some missingChunks\<rparr>, smallPrompt,
            chunkedPrompt\<lparr>content := Some ''abcd'', chunkCount := None, originalSize := None\<rparr>],
           Notion)"
  by (simp add: getPrompts_readItems readItems_brokenStore processPrompts_def brokenItems_def
      noItems_def processEntry_def getProperty_def reconstructPrompt_def shellPrompt_def
      smallPrompt_def chunkedPrompt_def settled_def Let_def)

text \<open>
  Claim C3. The code departs from the claim for a shell whose id names a method of
  \<open>Object.prototype\<close>. For the stored shell with the id \<open>constructor\<close>, a declared count
  of 1 and no fragments, \<open>chunks[prompt.id]\<close> is the inherited function \<open>Object\<close>, whose
  \<open>length\<close> is 1; \<open>reconstructPrompt\<close> is called with it and throws inside the storage
  callback, and the promise of \<open>getPrompts\<close> is never settled: no record is returned, the
  regular record stored next to the shell included. The same collection with the shell
  under the id \<open>lost\<close> is loaded as the claim says, the shell with the sentinel content
  and the regular record as stored. Importing a record with the id \<open>constructor\<close> and a
  \<open>chunkCount\<close> of 1 into an empty store succeeds and leaves a collection that
  \<open>getPrompts\<close> does not load.
\<close>

theorem getPrompts_inherited_method:
  "fst (getPrompts constructorStore) = None
   \<and> fst (getPrompts lostStore)
       = Some ([constructorShell\<lparr>id' := ''lost'', content := Some missingChunks\<rparr>, smallPrompt],
               Notion)
   \<and> fst (importPromptsFromJson parseConstructor blobSize noFailure constructorJson emptyStore)
       = Some (Inr [constructorRecord])
   \<and> PROMPTS (local (snd (importPromptsFromJson parseConstructor blobSize noFailure
                               constructorJson emptyStore)))
       = Some [constructorRecord]
   \<and> fst (getPrompts (snd (importPromptsFromJson parseConstructor blobSize noFailure
                               constructorJson emptyStore)))
       = None"
proof -
  have s: "chunkCount smallPrompt = None"
    by (simp add: smallPrompt_def)
  have c: "id' constructorShell = ''constructor''" "chunkCount constructorShell = Some 1"
    by (simp_all add: constructorShell_def)
  have a: "fst (getPrompts constructorStore) = None"
    by (simp add: getPrompts_readItems readItems_def constructorStore_def noItems_def
        processPrompts_def processEntry_def getProperty_def not_inherited c settled_def)
  have b: "fst (getPrompts lostStore)
       = Some ([constructorShell\<lparr>id' := ''lost'', content := Some missingChunks\<rparr>, smallPrompt],
               Notion)"
    by (simp add: getPrompts_readItems readItems_def lostStore_def noItems_def
        processPrompts_def processEntry_def getProperty_def not_inherited c s settled_def)
  have r: "asPrompt constructorImported = constructorRecord"
    by (simp add: asPrompt_def constructorImported_def constructorRecord_def)
  have v: "validatePrompts 0 [constructorImported] = Inr [constructorRecord]"
    by (simp add: r) (simp add: falsy_def constructorImported_def)
  have f: "id' constructorRecord = ''constructor''" "chunkCount constructorRecord = Some 1"
    "content constructorRecord = Some ''c''" "tags constructorRecord = None"
    by (simp_all add: constructorRecord_def)
  have "blobSize constructorRecord = 92"
    by (simp add: blobSize_def jsonFields_def constructorRecord_def jsonField_def
        jsonStringBytes_def charBytes_def jsonIntBytes_def showNat.simps Let_def)
  then have small: "\<not> MAX_PROMPT_SIZE_KB < promptSizeKB blobSize constructorRecord"
    by (simp add: promptSizeKB_def MAX_PROMPT_SIZE_KB_def)
  have d: "dataToSave blobSize [constructorRecord] Local
      = Inr \<lparr>PROMPTS = Some [constructorRecord], STORAGE_TYPE = Some Local,
              NOTION_CONFIG = None, SYNC_STATUS = None, TAGS = Some [],
              PROMPT_CHUNKS = Some Map.empty\<rparr>"
    using small by (simp add: dataToSave_def collectTags_def f)
  have g: "getPrompts emptyStore
      = (Some ([], Local), emptyStore\<lparr>calls := [Get SyncArea, Get LocalArea]\<rparr>)"
    by (simp add: getPrompts_def storageGet_def areaItems_def emptyStore_def noItems_def
        processPrompts_def settled_def)
  have m: "mergePrompts [] [constructorRecord] = [constructorRecord]"
    by (simp add: mergePrompts_def)
  let ?st = "snd (importPromptsFromJson parseConstructor blobSize noFailure constructorJson emptyStore)"
  let ?d = "\<lparr>PROMPTS = Some [constructorRecord], STORAGE_TYPE = Some Local,
              NOTION_CONFIG = None, SYNC_STATUS = None, TAGS = Some [],
              PROMPT_CHUNKS = Some Map.empty\<rparr>"
  let ?st' = "\<lparr>sync = noItems,
          local = noItems\<lparr>PROMPTS := Some [constructorRecord], STORAGE_TYPE := Some Local,
                            TAGS := Some [], PROMPT_CHUNKS := Some Map.empty\<rparr>,
          calls = [Get SyncArea, Get LocalArea, Set LocalArea ?d]\<rparr>"
  have p: "parseConstructor constructorJson = Inr (JArray [constructorImported])"
    by (simp add: parseConstructor_def)
  have sv: "savePrompts blobSize noFailure [constructorRecord] Local
              (emptyStore\<lparr>calls := [Get SyncArea, Get LocalArea]\<rparr>) = (Inr (), ?st')"
    by (simp add: savePrompts_def d storageSet_def noFailure_def writeArea_def mergeItems_def
        orElse_def emptyStore_def noItems_def)
  have i: "importPromptsFromJson parseConstructor blobSize noFailure constructorJson emptyStore
      = (Some (Inr [constructorRecord]), ?st')"
    by (simp add: importPromptsFromJson_def p v g m sv Let_def del: validatePrompts.simps)
  have e: "fst (getPrompts ?st) = None"
    by (simp add: i getPrompts_readItems readItems_def noItems_def processPrompts_def
        processEntry_def getProperty_def not_inherited f settled_def)
  from i have "fst (importPromptsFromJson parseConstructor blobSize noFailure constructorJson emptyStore)
       = Some (Inr [constructorRecord])"
    and "PROMPTS (local ?st) = Some [constructorRecord]"
    by (simp_all add: noItems_def)
  with a b e show ?thesis by (simp only: simp_thms)
qed

text \<open>
  Claim C4, as stated, fails: the record that \<open>getPrompts\<close> returns for a shell with
  missing fragments is the shell with the sentinel content, and still has the shell's
  \<open>chunkCount\<close> and \<open>originalSize\<close>.
\<close>

theorem getPrompts_exposes_chunkCount_counterexample:
  "fst (getPrompts brokenStore) =
     Some ([shellPrompt\<lparr>content := Some missingChunks\<rparr>, smallPrompt,
            chunkedPrompt\<lparr>content := Some ''abcd'', chunkCount := None, originalSize := None\<rparr>],
           Notion)
   \<and> chunkCount (shellPrompt\<lparr>content := Some missingChunks\<rparr>) = Some 3
   \<and> originalSize (shellPrompt\<lparr>content := Some missingChunks\<rparr>) = Some 9
   \<and> content (shellPrompt\<lparr>content := Some missingChunks\<rparr>) = Some missingChunks"
  by (simp add: loaded_brokenStore shellPrompt_def)

text \<open>
  Claim C4, amended. Let \<open>getPrompts\<close> return the list \<open>prompts\<close>; it has one record for
  each stored entry. For the stored entry \<open>e\<close> at position \<open>i\<close> and the returned record
  \<open>r\<close> at that position: when \<open>e\<close> is a shell whose fragments are all there, \<open>r\<close> has
  neither \<open>chunkCount\<close> nor \<open>originalSize\<close> and its content is the fragments
  concatenated; when \<open>e\<close> has no \<open>chunkCount\<close>, or 0, \<open>r\<close> is \<open>e\<close> as stored; when
  \<open>e\<close> is a shell with missing or incomplete fragments, \<open>r\<close> is \<open>e\<close> with the sentinel
  content, and keeps the \<open>chunkCount\<close> and \<open>originalSize\<close> of \<open>e\<close>.
\<close>

theorem getPrompts_exposure:
  assumes stored: "PROMPTS (readItems st) = Some saved"
    and loaded: "fst (getPrompts st) = Some (prompts, t)"
    and i: "i < length saved"
    and e: "e = saved ! i"
    and r: "r = prompts ! i"
  shows "length prompts = length saved
       \<and> (\<forall>n cs. chunkCount e = Some n \<and> 0 < n \<and>
            storedChunks (readItems st) (id' e) = Some cs \<and> length cs = n
            \<longrightarrow> chunkCount r = None \<and> originalSize r = None \<and> content r = Some (concat cs))
       \<and> (chunkCount e = None \<or> chunkCount e = Some 0 \<longrightarrow> r = e)
       \<and> (\<forall>n. chunkCount e = Some n \<and> 0 < n \<and>
              (case storedChunks (readItems st) (id' e) of
                 None \<Rightarrow> True | Some cs \<Rightarrow> length cs \<noteq> n)
            \<longrightarrow> r = e\<lparr>content := Some missingChunks\<rparr>
                \<and> chunkCount r = Some n \<and> originalSize r = originalSize e)"
proof -
  from loaded have "processPrompts (readItems st) = Inr (prompts, t)"
    by (simp add: getPrompts_readItems settled_Some)
  then have all: "list_all2 (\<lambda>e r. processEntry (storedChunks (readItems st)) e = Inr r) saved prompts"
    using stored by (simp add: processPrompts_Inr)
  then have len: "length prompts = length saved"
    by (simp add: list_all2_lengthD)
  from all i e r have "processEntry (storedChunks (readItems st)) e = Inr r"
    by (simp add: list_all2_conv_all_nth)
  then have rest: "(\<forall>n cs. chunkCount e = Some n \<and> 0 < n \<and>
            storedChunks (readItems st) (id' e) = Some cs \<and> length cs = n
            \<longrightarrow> chunkCount r = None \<and> originalSize r = None \<and> content r = Some (concat cs))
       \<and> (chunkCount e = None \<or> chunkCount e = Some 0 \<longrightarrow> r = e)
       \<and> (\<forall>n. chunkCount e = Some n \<and> 0 < n \<and>
              (case storedChunks (readItems st) (id' e) of
                 None \<Rightarrow> True | Some cs \<Rightarrow> length cs \<noteq> n)
            \<longrightarrow> r = e\<lparr>content := Some missingChunks\<rparr>
                \<and> chunkCount r = Some n \<and> originalSize r = originalSize e)"
    by (auto simp: processEntry_def getProperty_def reconstructPrompt_def
        split: option.splits property.splits member.splits if_splits)
  with len show ?thesis by (simp only: simp_thms)
qed

theorem getPrompts_exposure_witness:
  "length (fst (the (fst (getPrompts brokenStore)))) = 3 \<and>
   chunkCount (fst (the (fst (getPrompts brokenStore))) ! 2) = None \<and>
   originalSize (fst (the (fst (getPrompts brokenStore))) ! 2) = None \<and>
   content (fst (the (fst (getPrompts brokenStore))) ! 2) = Some (concat [''ab'', ''cd'']) \<and>
   fst (the (fst (getPrompts brokenStore))) ! 1 = smallPrompt \<and>
   fst (the (fst (getPrompts brokenStore))) ! 0 = shellPrompt\<lparr>content := Some missingChunks\<rparr> \<and>
   chunkCount (fst (the (fst (getPrompts brokenStore))) ! 0) = Some 3"
proof -
  let ?ps = "fst (the (fst (getPrompts brokenStore)))"
  have stored: "PROMPTS (readItems brokenStore) = Some [shellPrompt, smallPrompt, chunkedPrompt]"
    by (simp add: readItems_brokenStore brokenItems_def)
  have loaded: "fst (getPrompts brokenStore) = Some (?ps, Notion)"
    by (simp add: loaded_brokenStore)
  have ch: "storedChunks (readItems brokenStore) = [''big'' \<mapsto> [''aaa'', ''bbb''], ''ok'' \<mapsto> [''ab'', ''cd'']]"
    by (simp add: readItems_brokenStore brokenItems_def storedChunks_def)
  have "chunkCount chunkedPrompt = Some 2 \<and> 0 < (2::nat) \<and>
      storedChunks (readItems brokenStore) (id' chunkedPrompt) = Some [''ab'', ''cd'']
      \<and> length [''ab'', ''cd''] = 2"
    by (simp add: ch chunkedPrompt_def)
  with getPrompts_exposure [OF stored loaded, of 2 chunkedPrompt "?ps ! 2"]
  have a: "length ?ps = 3 \<and> chunkCount (?ps ! 2) = None \<and> originalSize (?ps ! 2) = None \<and>
      content (?ps ! 2) = Some (concat [''ab'', ''cd''])"
    by simp
  have "chunkCount smallPrompt = None"
    by (simp add: smallPrompt_def)
  with getPrompts_exposure [OF stored loaded, of 1 smallPrompt "?ps ! 1"]
  have b: "?ps ! 1 = smallPrompt"
    by simp
  have "chunkCount shellPrompt = Some 3 \<and> 0 < (3::nat) \<and>
      (case storedChunks (readItems brokenStore) (id' shellPrompt) of
         None \<Rightarrow> True | Some cs \<Rightarrow> length cs \<noteq> 3)"
    by (simp add: ch shellPrompt_def)
  with getPrompts_exposure [OF stored loaded, of 0 shellPrompt "?ps ! 0"]
  have c: "?ps ! 0 = shellPrompt\<lparr>content := Some missingChunks\<rparr>
      \<and> chunkCount (?ps ! 0) = Some 3"
    by simp
  from a b c show ?thesis by blast
qed


subsection \<open>Saving\<close>

lemma smallPrompt_size: "blobSize smallPrompt = 89"
  by (simp add: blobSize_def jsonFields_def smallPrompt_def jsonField_def jsonStringBytes_def
      charBytes_def jsonIntBytes_def jsonArrayBytes_def showNat.simps Let_def)

lemma smallPrompt_regular: "\<not> MAX_PROMPT_SIZE_KB < promptSizeKB blobSize smallPrompt"
  by (simp add: promptSizeKB_def MAX_PROMPT_SIZE_KB_def smallPrompt_size)

lemma smallPrompt_fields: "content smallPrompt = Some ''hello''" "tags smallPrompt = Some [''y'']"
  by (simp_all add: smallPrompt_def)

lemma dataToSave_small: "dataToSave blobSize [smallPrompt] Notion = Inr smallData"
  using smallPrompt_regular
  by (simp add: dataToSave_def smallData_def collectTags_def addTag_def smallPrompt_fields)

text \<open>
  Claim C2. Let the object to save be \<open>d\<close> and let the write to the selected area fail
  with the message \<open>m\<close>. If the storage type is not "local", \<open>m\<close> names a quota (it
  contains \<open>QUOTA_BYTES\<close>) and the write of the same \<open>d\<close> to the local area succeeds, then
  \<open>savePrompts\<close> resolves, the local area holds \<open>d\<close>, and the calls were the two writes of
  \<open>d\<close>. If the storage type is "local" or \<open>m\<close> names no quota, it rejects with the
  \<open>lastError\<close> of the first write, which is the only call made.
\<close>

theorem savePrompts_quota_fallback:
  assumes d: "dataToSave sz prompts storageType = Inr d"
    and failed: "le (if storageType = Local then LocalArea else SyncArea) d st = Some m"
  shows "(storageType \<noteq> Local \<and> quotaExceeded m \<and>
          le LocalArea d (st\<lparr>calls := calls st @ [Set SyncArea d]\<rparr>) = None \<longrightarrow>
            savePrompts sz le prompts storageType st =
              (Inr (), st\<lparr>local := mergeItems d (local st),
                          calls := calls st @ [Set SyncArea d, Set LocalArea d]\<rparr>))
       \<and> (storageType = Local \<or> \<not> quotaExceeded m \<longrightarrow>
            savePrompts sz le prompts storageType st =
              (Inl (LastError m),
               st\<lparr>calls := calls st @ [Set (if storageType = Local then LocalArea else SyncArea) d]\<rparr>))"
  using assms
  by (auto simp: savePrompts_def storageSet_def writeArea_def Let_def)

theorem savePrompts_quota_fallback_witness:
  "savePrompts blobSize quotaFailure [smallPrompt] Notion emptyStore =
     (Inr (), emptyStore\<lparr>local := mergeItems smallData (local emptyStore),
                          calls := calls emptyStore @ [Set SyncArea smallData, Set LocalArea smallData]\<rparr>)
   \<and> savePrompts blobSize otherFailure [smallPrompt] Notion emptyStore =
     (Inl (LastError (Some ''The browser is shutting down.'')),
      emptyStore\<lparr>calls := calls emptyStore @ [Set SyncArea smallData]\<rparr>)"
proof -
  have q: "quotaExceeded (Some ''QUOTA_BYTES_PER_ITEM quota exceeded'')"
    by (simp add: quotaExceeded_def messageIncludes_def)
  have nq: "\<not> quotaExceeded (Some ''The browser is shutting down.'')"
    by (simp add: quotaExceeded_def messageIncludes_def)
  have a: "quotaFailure (if Notion = Local then LocalArea else SyncArea) smallData emptyStore
      = Some (Some ''QUOTA_BYTES_PER_ITEM quota exceeded'')"
    by (simp add: quotaFailure_def)
  have b: "otherFailure (if Notion = Local then LocalArea else SyncArea) smallData emptyStore
      = Some (Some ''The browser is shutting down.'')"
    by (simp add: otherFailure_def)
  have c: "quotaFailure LocalArea smallData (emptyStore\<lparr>calls := calls emptyStore @ [Set SyncArea smallData]\<rparr>) = None"
    by (simp add: quotaFailure_def)
  from savePrompts_quota_fallback [where le = quotaFailure and st = emptyStore, OF dataToSave_small a] q c
    savePrompts_quota_fallback [where le = otherFailure and st = emptyStore, OF dataToSave_small b] nq
  show ?thesis by simp
qed

subsection \<open>Import: validation\<close>




subsection \<open>Searching\<close>

lemma includesStr_sublist: "includesStr s sub \<longleftrightarrow> sublist sub s"
proof (induction s)
  case Nil
  show ?case by simp
next
  case (Cons c cs)
  have "take (length sub) (c # cs) = sub \<longleftrightarrow> prefix sub (c # cs)"
    by (metis prefix_def append_take_drop_id append_eq_conv_conj)
  with Cons show ?case by (simp add: sublist_Cons_right)
qed

lemma filterE_filter:
  "\<forall>x \<in> set xs. f x = Inr (P x) \<Longrightarrow> filterE f xs = Inr (filter P xs)"
  by (induction xs) simp_all

lemma loaded_searchStore: "fst (getPrompts searchStore) = Some ([fooPrompt, otherPrompt], Notion)"
  by (simp add: getPrompts_readItems readItems_def searchStore_def noItems_def processPrompts_def
      processEntry_def fooPrompt_def otherPrompt_def settled_def Let_def)

lemma searchPrompts_loaded:
  "fst (getPrompts st) = Some (prompts, t) \<Longrightarrow>
   fst (searchPrompts query wanted st) =
     Some (if query = [] \<and> wanted = [] then Inr prompts
           else filterE (matchesSearch (trim (toLowerCase query)) wanted) prompts)"
  by (cases "getPrompts st") (simp add: searchPrompts_def Let_def)

lemma searchPrompts_pending:
  "fst (getPrompts st) = None \<Longrightarrow> fst (searchPrompts query wanted st) = None"
  by (cases "getPrompts st") (simp add: searchPrompts_def)

text \<open>
  Claim C7, amended. When \<open>getPrompts\<close> returns the list \<open>prompts\<close> and every record
  of it has a content, \<open>searchPrompts\<close> returns exactly the loaded records, in order, for
  which the tag set is empty or the record has one of the required tags, and for which
  the query, in lower case and with the white space at its ends removed, is empty or is a
  substring of the title or of the content in lower case. With an empty query and an
  empty tag set it returns all loaded records.
\<close>

theorem searchPrompts_filter:
  assumes loaded: "fst (getPrompts st) = Some (prompts, t)"
    and defined: "\<forall>p \<in> set prompts. content p \<noteq> None"
  shows "fst (searchPrompts query wanted st) =
           Some (Inr (filter
                  (\<lambda>p. (wanted = []
                         \<or> (case tags p of None \<Rightarrow> False
                             | Some ts \<Rightarrow> \<exists>t \<in> set wanted. t \<in> set ts))
                      \<and> (trim (toLowerCase query) = []
                         \<or> sublist (trim (toLowerCase query)) (toLowerCase (title p))
                         \<or> (case content p of None \<Rightarrow> False
                             | Some s \<Rightarrow> sublist (trim (toLowerCase query)) (toLowerCase s))))
                  prompts))
         \<and> (query = [] \<and> wanted = [] \<longrightarrow>
              fst (searchPrompts query wanted st) = Some (Inr prompts))"
proof -
  let ?nq = "trim (toLowerCase query)"
  let ?P = "\<lambda>p. (wanted = []
                   \<or> (case tags p of None \<Rightarrow> False
                       | Some ts \<Rightarrow> \<exists>t \<in> set wanted. t \<in> set ts))
                \<and> (?nq = []
                   \<or> sublist ?nq (toLowerCase (title p))
                   \<or> (case content p of None \<Rightarrow> False
                       | Some s \<Rightarrow> sublist ?nq (toLowerCase s)))"
  let ?ps = prompts
  note sl = searchPrompts_loaded [OF loaded, of query wanted]
  have each: "matchesSearch ?nq wanted p = Inr (?P p)" if "p \<in> set ?ps" for p
  proof -
    from that defined obtain s where s: "content p = Some s" by auto
    show ?thesis
      by (cases "tags p") (auto simp: matchesSearch_def s includesStr_sublist list_ex_iff Let_def)
  qed
  then have f: "filterE (matchesSearch ?nq wanted) ?ps = Inr (filter ?P ?ps)"
    by (intro filterE_filter) simp
  show ?thesis
  proof (cases "query = [] \<and> wanted = []")
    case True
    then have "?nq = []" by (simp add: toLowerCase_def trim_def)
    with True have "?P p" for p by blast
    then have fl: "filter ?P ?ps = ?ps" by (intro filter_True) blast
    have res: "fst (searchPrompts query wanted st) = Some (Inr ?ps)"
      using True sl by simp
    show ?thesis by (simp only: res fl simp_thms)
  next
    case False
    then have "fst (searchPrompts query wanted st) = Some (filterE (matchesSearch ?nq wanted) ?ps)"
      by (simp only: sl if_False)
    with f have "fst (searchPrompts query wanted st) = Some (Inr (filter ?P ?ps))"
      by (simp only:)
    with False show ?thesis by blast
  qed
qed

text \<open>
  Claim C7, as stated, fails: the query is trimmed before it is compared. For the query
  \<open>foo\<close> followed by a space the record titled \<open>Foobar helper\<close> is returned, and that
  query is not a substring of its title or content.
\<close>

theorem searchPrompts_trims_query_counterexample:
  "fst (searchPrompts ''foo '' [] searchStore) = Some (Inr [fooPrompt])
   \<and> \<not> specMatches ''foo '' [] fooPrompt"
  by code_simp

theorem searchPrompts_filter_witness:
  "fst (searchPrompts ''FOO '' [''Coding & Development''] searchStore) = Some (Inr [fooPrompt])
   \<and> fst (searchPrompts [] [] searchStore) = Some (Inr [fooPrompt, otherPrompt])"
proof -
  have d: "\<forall>p \<in> set [fooPrompt, otherPrompt]. content p \<noteq> None"
    by (simp add: fooPrompt_def otherPrompt_def)
  have n: "trim (toLowerCase ''FOO '') = ''foo''" "trim (toLowerCase []) = []"
    by code_simp+
  have l: "toLowerCase (title fooPrompt) = ''foobar helper''"
    "toLowerCase (title otherPrompt) = ''poem''"
    "toLowerCase ''Write a poem about the sea.'' = ''write a poem about the sea.''"
    by code_simp+
  have f: "tags fooPrompt = Some [''Coding & Development'']" "tags otherPrompt = Some [''Writing'']"
    "content otherPrompt = Some ''Write a poem about the sea.''"
    by (simp_all add: fooPrompt_def otherPrompt_def)
  have s: "sublist ''foo'' ''foobar helper''"
    by (simp add: includesStr_sublist [symmetric])
  from searchPrompts_filter [OF loaded_searchStore d, of "''FOO ''" "[''Coding & Development'']"]
    searchPrompts_filter [OF loaded_searchStore d, of "[]" "[]"]
  show ?thesis
    by (simp add: n l f s)
qed

subsection \<open>Sync with Notion\<close>

lemma updateSyncStatus_areas:
  assumes "updateSyncStatus le status st = (r, st')"
  shows "local st' = local st"
    and "r = Inr () \<Longrightarrow> \<exists>s. SYNC_STATUS (sync st') = Some s
           \<and> (\<forall>v. newInProgress status = Some v \<longrightarrow> inProgress s = v)
           \<and> (\<forall>v. newError status = Some v \<longrightarrow> error s = v)
           \<and> (\<forall>v. newLastSynced status = Some v \<longrightarrow> lastSynced s = v)"
  using assms
  by (auto simp: updateSyncStatus_def getSyncStatus_def storageGet_def storageSet_def
      writeArea_def mergeItems_def orElse_def noItems_def areaItems_def Let_def
      split: option.splits prod.splits)

lemma getNotionConfig_areas:
  "sync (snd (getNotionConfig st)) = sync st" "local (snd (getNotionConfig st)) = local st"
  "fst (getNotionConfig st) = NOTION_CONFIG (sync st)"
  by (simp_all add: getNotionConfig_def storageGet_def areaItems_def Let_def)

lemma syncWithNotion_pending:
  "fst (getPrompts st) = None \<Longrightarrow> fst (syncWithNotion sz le ns now st) = None"
  by (cases "getPrompts st") (simp add: syncWithNotion_def)

text \<open>
  Claim C8, amended. Let \<open>getPrompts\<close> return. Without a configured credential
  \<open>syncWithNotion\<close> throws "Notion is not configured" and leaves both areas as they
  were: the sync status is not updated. With a credential, when the \<open>try\<close> block fails
  with \<open>e\<close> and the status update of the handler succeeds, \<open>syncWithNotion\<close> throws
  \<open>e\<close> and the stored status has \<open>inProgress\<close> false and as \<open>error\<close> the message of
  \<open>e\<close> when \<open>e\<close> is an \<open>Error\<close>, and "Unknown error during sync" otherwise.
\<close>

theorem syncWithNotion_failure:
  assumes loaded: "getPrompts st = (Some (prompts, t), st1)"
  shows "(NOTION_CONFIG (sync st) = None \<longrightarrow>
            (\<exists>st2. syncWithNotion sz le ns now st
                     = (Some (Inl (Error ''Notion is not configured'')), st2)
                   \<and> sync st2 = sync st \<and> local st2 = local st))
       \<and> (\<forall>c e st3 st4.
             NOTION_CONFIG (sync st) = Some c
             \<and> syncTry sz le ns now prompts (snd (getNotionConfig st1)) = (Inl e, st3)
             \<and> updateSyncStatus le
                   \<lparr>newLastSynced = None, newInProgress = Some False,
                    newError = Some (Some (if instanceofError e then message e
                                           else ''Unknown error during sync''))\<rparr> st3
                 = (Inr (), st4)
             \<longrightarrow> syncWithNotion sz le ns now st = (Some (Inl e), st4)
                 \<and> (\<exists>s. SYNC_STATUS (sync st4) = Some s \<and> inProgress s = False
                         \<and> error s = Some (if instanceofError e then message e
                                             else ''Unknown error during sync'')))"
proof (intro conjI impI allI)
  assume none: "NOTION_CONFIG (sync st) = None"
  have s1: "sync st1 = sync st" "local st1 = local st"
    using getPrompts_areas [of st] loaded by simp_all
  obtain cfg st2 where g: "getNotionConfig st1 = (cfg, st2)" by (cases "getNotionConfig st1")
  with getNotionConfig_areas [of st1] s1 none
  have "cfg = None" "sync st2 = sync st" "local st2 = local st" by simp_all
  with loaded g
  show "\<exists>st2. syncWithNotion sz le ns now st
                     = (Some (Inl (Error ''Notion is not configured'')), st2)
                   \<and> sync st2 = sync st \<and> local st2 = local st"
    by (simp add: syncWithNotion_def)
next
  fix c e st3 st4
  assume a: "NOTION_CONFIG (sync st) = Some c
             \<and> syncTry sz le ns now prompts (snd (getNotionConfig st1)) = (Inl e, st3)
             \<and> updateSyncStatus le
                   \<lparr>newLastSynced = None, newInProgress = Some False,
                    newError = Some (Some (if instanceofError e then message e
                                           else ''Unknown error during sync''))\<rparr> st3
                 = (Inr (), st4)"
  have s1: "sync st1 = sync st"
    using getPrompts_areas [of st] loaded by simp
  obtain cfg st2 where g: "getNotionConfig st1 = (cfg, st2)" by (cases "getNotionConfig st1")
  with getNotionConfig_areas [of st1] s1 a have cfg: "cfg = Some c" by simp
  from a g have t: "syncTry sz le ns now prompts st2 = (Inl e, st3)" by simp
  from a have u: "syncCatch le e st3 = (Inl e, st4)" by (simp add: syncCatch_def)
  from loaded g cfg t u
  show "syncWithNotion sz le ns now st = (Some (Inl e), st4)"
    by (simp add: syncWithNotion_def)
  from a updateSyncStatus_areas(2) [of le _ st3 "Inr ()" st4]
  show "\<exists>s. SYNC_STATUS (sync st4) = Some s \<and> inProgress s = False
                         \<and> error s = Some (if instanceofError e then message e
                                             else ''Unknown error during sync'')"
    by fastforce
qed

text \<open>
  Claim C8, as stated, fails for the missing credential: the check precedes the \<open>try\<close>
  block, so the error is thrown with the stored status untouched (here still in
  progress and without an error) and after two reads only.
\<close>

theorem syncWithNotion_unconfigured_counterexample:
  "fst (syncWithNotion blobSize noFailure unreachable 0 unconfiguredStore)
     = Some (Inl (Error ''Notion is not configured''))
   \<and> SYNC_STATUS (sync (snd (syncWithNotion blobSize noFailure unreachable 0 unconfiguredStore)))
     = Some \<lparr>lastSynced = None, inProgress = True, error = None\<rparr>
   \<and> calls (snd (syncWithNotion blobSize noFailure unreachable 0 unconfiguredStore))
     = [Get SyncArea, Get SyncArea]"
  by (simp add: syncWithNotion_def getPrompts_def getNotionConfig_def storageGet_def areaItems_def
      unconfiguredStore_def noItems_def staleStatus_def processPrompts_def processEntry_def
      smallPrompt_def settled_def Let_def)


lemma updateSyncStatus_noFailure: "fst (updateSyncStatus noFailure status st) = Inr ()"
  by (simp add: updateSyncStatus_def storageSet_def noFailure_def Let_def split: prod.splits)

lemma updateSyncStatus_promptsFailure: "fst (updateSyncStatus promptsFailure status st) = Inr ()"
  by (simp add: updateSyncStatus_def storageSet_def promptsFailure_def noItems_def Let_def
      split: prod.splits)

lemma syncTry_unreachable:
  "fst (syncTry sz noFailure unreachable now prompts st) = Inl (Error ''Notion API unreachable'')"
proof -
  obtain st1 where "updateSyncStatus noFailure
      \<lparr>newLastSynced = None, newInProgress = Some True, newError = Some None\<rparr> st = (Inr (), st1)"
    using updateSyncStatus_noFailure by (metis prod.collapse)
  then show ?thesis by (simp add: syncTry_def unreachable_def)
qed

lemma savePrompts_promptsFailure:
  "dataToSave sz ps Notion = Inr d \<Longrightarrow>
   fst (savePrompts sz promptsFailure ps Notion st) = Inl (LastError (Some ''An unexpected error occurred''))"
  by (auto simp: savePrompts_def storageSet_def promptsFailure_def dataToSave_def quotaExceeded_def
      messageIncludes_def Let_def split: sum.splits prod.splits)

lemma syncTry_promptsFailure:
  "fst (syncTry blobSize promptsFailure echo now [smallPrompt] st)
     = Inl (LastError (Some ''An unexpected error occurred''))"
proof -
  obtain st1 where "updateSyncStatus promptsFailure
      \<lparr>newLastSynced = None, newInProgress = Some True, newError = Some None\<rparr> st = (Inr (), st1)"
    using updateSyncStatus_promptsFailure by (metis prod.collapse)
  moreover obtain r st2 where s: "savePrompts blobSize promptsFailure [smallPrompt] Notion st1 = (r, st2)"
    by (cases "savePrompts blobSize promptsFailure [smallPrompt] Notion st1")
  moreover from s savePrompts_promptsFailure [OF dataToSave_small, of st1]
  have "r = Inl (LastError (Some ''An unexpected error occurred''))" by simp
  ultimately show ?thesis by (simp add: syncTry_def echo_def)
qed

lemma configuredStore_config:
  "NOTION_CONFIG (sync configuredStore) = Some \<lparr>apiKey = ''secret'', pageId = ''page''\<rparr>"
  by (simp add: configuredStore_def noItems_def)

lemma loaded_configuredStore: "fst (getPrompts configuredStore) = Some ([smallPrompt], Notion)"
  by (simp add: getPrompts_readItems readItems_def configuredStore_def noItems_def
      processPrompts_def processEntry_def smallPrompt_def settled_def Let_def)

theorem syncWithNotion_failure_witness:
  "fst (syncWithNotion blobSize noFailure unreachable 0 configuredStore)
     = Some (Inl (Error ''Notion API unreachable''))
   \<and> (\<exists>s. SYNC_STATUS (sync (snd (syncWithNotion blobSize noFailure unreachable 0 configuredStore)))
            = Some s \<and> inProgress s = False \<and> error s = Some ''Notion API unreachable'')
   \<and> fst (syncWithNotion blobSize promptsFailure echo 0 configuredStore)
     = Some (Inl (LastError (Some ''An unexpected error occurred'')))
   \<and> (\<exists>s. SYNC_STATUS (sync (snd (syncWithNotion blobSize promptsFailure echo 0 configuredStore)))
            = Some s \<and> inProgress s = False \<and> error s = Some ''Unknown error during sync'')"
proof -
  obtain st1 where l: "getPrompts configuredStore = (Some ([smallPrompt], Notion), st1)"
    using loaded_configuredStore by (metis prod.collapse)
  define prompts where "prompts = [smallPrompt]"
  have p: "prompts = [smallPrompt]" by (simp add: prompts_def)
  note l = l [folded prompts_def]
  let ?st2 = "snd (getNotionConfig st1)"
  obtain st3 where t1: "syncTry blobSize noFailure unreachable 0 prompts ?st2
      = (Inl (Error ''Notion API unreachable''), st3)"
    using syncTry_unreachable by (metis prod.collapse)
  obtain st4 where u1: "updateSyncStatus noFailure
      \<lparr>newLastSynced = None, newInProgress = Some False,
       newError = Some (Some (if instanceofError (Error ''Notion API unreachable'')
                              then message (Error ''Notion API unreachable'')
                              else ''Unknown error during sync''))\<rparr> st3 = (Inr (), st4)"
    using updateSyncStatus_noFailure by (metis prod.collapse)
  obtain st3' where t2: "syncTry blobSize promptsFailure echo 0 prompts ?st2
      = (Inl (LastError (Some ''An unexpected error occurred'')), st3')"
    using syncTry_promptsFailure p by (metis prod.collapse)
  obtain st4' where u2: "updateSyncStatus promptsFailure
      \<lparr>newLastSynced = None, newInProgress = Some False,
       newError = Some (Some (if instanceofError (LastError (Some ''An unexpected error occurred''))
                              then message (LastError (Some ''An unexpected error occurred''))
                              else ''Unknown error during sync''))\<rparr> st3' = (Inr (), st4')"
    using updateSyncStatus_promptsFailure by (metis prod.collapse)
  from syncWithNotion_failure [OF l, of blobSize noFailure unreachable 0] configuredStore_config t1 u1
  have a: "syncWithNotion blobSize noFailure unreachable 0 configuredStore
        = (Some (Inl (Error ''Notion API unreachable'')), st4)
      \<and> (\<exists>s. SYNC_STATUS (sync st4) = Some s \<and> inProgress s = False
              \<and> error s = Some ''Notion API unreachable'')"
    by fastforce
  from syncWithNotion_failure [OF l, of blobSize promptsFailure echo 0] configuredStore_config t2 u2
  have b: "syncWithNotion blobSize promptsFailure echo 0 configuredStore
        = (Some (Inl (LastError (Some ''An unexpected error occurred''))), st4')
      \<and> (\<exists>s. SYNC_STATUS (sync st4') = Some s \<and> inProgress s = False
              \<and> error s = Some ''Unknown error during sync'')"
    by fastforce
  from a b show ?thesis by simp
qed


subsection \<open>The partition made by savePrompts\<close>

lemma chunkLoop_empty: "chunkLoop s 0 [] = [] \<longleftrightarrow> s = []"
proof (cases "0 < length s")
  case True
  from chunkLoop_step [OF True] show ?thesis using True by simp
next
  case False
  then have "chunkLoop s 0 [] = []" by (intro chunkLoop_done) simp
  with False show ?thesis by simp
qed

lemma fragments_Some:
  assumes "content p = Some s"
  shows "fragments p = chunkLoop s 0 []" "concat (fragments p) = s" "fragments p = [] \<longleftrightarrow> s = []"
  using assms by (simp_all add: fragments_def concat_chunkLoop chunkLoop_empty)

lemma chunkPrompt_oversized:
  "oversized sz p \<Longrightarrow> content p = Some s \<Longrightarrow>
   chunkPrompt sz p = Inr (Some (shellOf sz p), fragments p)"
  by (simp add: chunkPrompt_def oversized_def shellOf_def fragments_def Let_def)

lemma chunkMapOf_simps:
  "chunkMapOf [] c = c"
  "chunkMapOf (p # ps) c = chunkMapOf ps (setProperty c (id' p) (fragments p))"
  by (simp_all add: chunkMapOf_def)

lemma regularOf_simps:
  "regularOf sz [] = []"
  "regularOf sz (p # ps) = (if oversized sz p then regularOf sz ps else p # regularOf sz ps)"
  by (simp_all add: regularOf_def)

lemma chunkedOf_simps:
  "chunkedOf sz [] = []"
  "chunkedOf sz (p # ps) =
     (if oversized sz p \<and> fragments p \<noteq> [] then p # chunkedOf sz ps else chunkedOf sz ps)"
  by (simp_all add: chunkedOf_def)

lemma sortPrompts_eq:
  "\<forall>p \<in> set ps. content p \<noteq> None \<Longrightarrow>
   sortPrompts sz ps (r, m, c) =
     Inr (r @ regularOf sz ps, m @ map (shellOf sz) (chunkedOf sz ps),
          chunkMapOf (chunkedOf sz ps) c)"
proof (induction ps arbitrary: r m c)
  case Nil
  show ?case by (simp add: regularOf_simps chunkedOf_simps chunkMapOf_simps)
next
  case (Cons p ps)
  then obtain s where s: "content p = Some s" by auto
  from Cons.prems have rest: "\<forall>q \<in> set ps. content q \<noteq> None" by simp
  show ?case
  proof (cases "oversized sz p")
    case False
    then have step: "sortPrompts sz (p # ps) (r, m, c) = sortPrompts sz ps (r @ [p], m, c)"
      by (simp add: s oversized_def)
    have "regularOf sz (p # ps) = p # regularOf sz ps" "chunkedOf sz (p # ps) = chunkedOf sz ps"
      using False by (simp_all add: regularOf_simps chunkedOf_simps)
    then show ?thesis
      unfolding step Cons.IH [OF rest] by simp
  next
    case True
    note cp = chunkPrompt_oversized [OF True s]
    show ?thesis
    proof (cases "fragments p = []")
      case none: True
      with True have step: "sortPrompts sz (p # ps) (r, m, c) = sortPrompts sz ps (r, m, c)"
        by (simp add: s cp oversized_def)
      have "regularOf sz (p # ps) = regularOf sz ps" "chunkedOf sz (p # ps) = chunkedOf sz ps"
        using True none by (simp_all add: regularOf_simps chunkedOf_simps)
      then show ?thesis
        unfolding step Cons.IH [OF rest] by simp
    next
      case some: False
      with True have step: "sortPrompts sz (p # ps) (r, m, c)
          = sortPrompts sz ps (r, m @ [shellOf sz p], setProperty c (id' p) (fragments p))"
        by (simp add: s cp oversized_def)
      have "regularOf sz (p # ps) = regularOf sz ps" "chunkedOf sz (p # ps) = p # chunkedOf sz ps"
        using True some by (simp_all add: regularOf_simps chunkedOf_simps)
      then show ?thesis
        unfolding step Cons.IH [OF rest] by (simp add: chunkMapOf_simps)
    qed
  qed
qed


lemma dataToSave_eq:
  "\<forall>p \<in> set ps. content p \<noteq> None \<Longrightarrow> dataToSave sz ps t = Inr (savedData sz ps t)"
  by (simp add: dataToSave_def sortPrompts_eq savedData_def)


lemma setProperty_lookup:
  "setProperty c k v k' = (if k' = k \<and> k \<noteq> ''__proto__'' then Some v else c k')"
  by (simp add: setProperty_def)

lemma chunkMapOf_other: "k \<notin> id' ` set ps \<Longrightarrow> chunkMapOf ps c k = c k"
  by (induction ps arbitrary: c) (auto simp: chunkMapOf_simps setProperty_lookup)

lemma chunkMapOf_proto: "chunkMapOf ps c ''__proto__'' = c ''__proto__''"
  by (induction ps arbitrary: c) (auto simp: chunkMapOf_simps setProperty_lookup)

lemma chunkMapOf_value:
  "chunkMapOf ps c k = Some cs \<Longrightarrow> c k = Some cs \<or> (\<exists>p \<in> set ps. id' p = k \<and> cs = fragments p)"
proof (induction ps arbitrary: c)
  case Nil
  then show ?case by (simp add: chunkMapOf_simps)
next
  case (Cons p ps)
  from Cons.prems have "chunkMapOf ps (setProperty c (id' p) (fragments p)) k = Some cs"
    by (simp only: chunkMapOf_simps)
  from Cons.IH [OF this]
  have "setProperty c (id' p) (fragments p) k = Some cs \<or> (\<exists>q \<in> set ps. id' q = k \<and> cs = fragments q)" .
  then show ?case by (auto simp: setProperty_lookup split: if_splits)
qed


subsection \<open>Oversized records without content\<close>

lemma missingChunks_nonempty: "missingChunks \<noteq> []"
  by (simp add: missingChunks_def)

lemma processEntry_empty_content:
  assumes "processEntry ch e = Inr r" "content r = Some []"
  shows "(r = e \<and> (chunkCount e = None \<or> chunkCount e = Some 0))
         \<or> (\<exists>cs. ch (id' e) = Some cs \<and> concat cs = [])"
  using assms missingChunks_nonempty
  by (auto simp: processEntry_def getProperty_def reconstructPrompt_def
      split: option.splits property.splits member.splits if_splits)

lemma processPrompts_mergeItems:
  "PROMPTS d \<noteq> None \<Longrightarrow> STORAGE_TYPE d \<noteq> None \<Longrightarrow> PROMPT_CHUNKS d \<noteq> None \<Longrightarrow>
   processPrompts (mergeItems d old) = processPrompts d"
proof -
  assume "PROMPTS d \<noteq> None" "STORAGE_TYPE d \<noteq> None" "PROMPT_CHUNKS d \<noteq> None"
  then obtain a b c where "PROMPTS d = Some a" "STORAGE_TYPE d = Some b" "PROMPT_CHUNKS d = Some c"
    by auto
  then show ?thesis
    by (simp add: processPrompts_def mergeItems_def orElse_def)
qed

lemma list_all2_right:
  "list_all2 P xs ys \<Longrightarrow> y \<in> set ys \<Longrightarrow> \<exists>x \<in> set xs. P x y"
  by (induction rule: list_all2_induct) auto

lemma savedData_fields:
  "PROMPTS (savedData sz ps t) = Some (regularOf sz ps @ map (shellOf sz) (chunkedOf sz ps))"
  "STORAGE_TYPE (savedData sz ps t) = Some t"
  "PROMPT_CHUNKS (savedData sz ps t) = Some (chunkMapOf (chunkedOf sz ps) Map.empty)"
  "TAGS (savedData sz ps t) = Some (collectTags ps)"
  "NOTION_CONFIG (savedData sz ps t) = None"
  "SYNC_STATUS (savedData sz ps t) = None"
  by (simp_all add: savedData_def)

lemma loaded_savedData:
  "processPrompts (mergeItems (savedData sz ps t) old) = Inr (loaded, t') \<longleftrightarrow>
     list_all2 (\<lambda>e r. processEntry (chunkMapOf (chunkedOf sz ps) Map.empty) e = Inr r)
       (regularOf sz ps @ map (shellOf sz) (chunkedOf sz ps)) loaded
     \<and> t' = t"
  by (simp add: processPrompts_mergeItems processPrompts_Inr savedData_fields storedChunks_def)

lemma stored_fragments_nonempty:
  assumes defined: "\<forall>q \<in> set ps. content q \<noteq> None"
    and "chunkMapOf (chunkedOf sz ps) Map.empty k = Some cs"
  shows "concat cs \<noteq> []"
proof -
  from chunkMapOf_value [OF assms(2)] obtain q where q: "q \<in> set (chunkedOf sz ps)" "cs = fragments q"
    by auto
  then have "q \<in> set ps" "fragments q \<noteq> []" by (simp_all add: chunkedOf_def)
  with defined obtain s where "content q = Some s" by auto
  from fragments_Some(2,3) [OF this] \<open>fragments q \<noteq> []\<close> q(2) show ?thesis by simp
qed

lemma savePrompts_calls:
  assumes "dataToSave sz ps t = Inr d"
  shows "calls (snd (savePrompts sz le ps t st)) = calls st @ [Set (if t = Local then LocalArea else SyncArea) d]
       \<or> calls (snd (savePrompts sz le ps t st)) = calls st @ [Set SyncArea d, Set LocalArea d]"
  using assms
  by (auto simp: savePrompts_def storageSet_def writeArea_def Let_def split: option.splits)

lemma dropped_partition:
  assumes "oversized sz p" "content p = Some []"
  shows "regularOf sz (xs @ p # ys) = regularOf sz (xs @ ys)"
    and "chunkedOf sz (xs @ p # ys) = chunkedOf sz (xs @ ys)"
  using assms fragments_Some(3) [of p "[]"] by (simp_all add: regularOf_def chunkedOf_def)

text \<open>
  Claim C10. Let \<open>p\<close> be oversized with the empty string as its content, anywhere in
  the list, every other record having a content. Then \<open>savePrompts\<close> builds an object
  \<open>d\<close>, which is the argument of every write it makes; the prompts list and the fragment
  map of \<open>d\<close> are those of the list without \<open>p\<close>; the prompts list holds neither \<open>p\<close>
  nor the shell that \<open>chunkPrompt\<close> returns for \<open>p\<close>, whose fragments are none; what is
  loaded from an area that received \<open>d\<close> does not hold \<open>p\<close>; and when no other record
  of the list has the id of \<open>p\<close>, the fragment map has no entry for that id and what is
  loaded holds no record with it.
\<close>

theorem savePrompts_drops_empty_oversized:
  assumes big: "MAX_PROMPT_SIZE_KB < promptSizeKB sz p"
    and empty: "content p = Some []"
    and others: "\<forall>q \<in> set (xs @ ys). content q \<noteq> None"
  shows "\<exists>d d' saved.
           dataToSave sz (xs @ p # ys) t = Inr d
         \<and> (calls (snd (savePrompts sz le (xs @ p # ys) t st))
              = calls st @ [Set (if t = Local then LocalArea else SyncArea) d]
            \<or> calls (snd (savePrompts sz le (xs @ p # ys) t st))
              = calls st @ [Set SyncArea d, Set LocalArea d])
         \<and> dataToSave sz (xs @ ys) t = Inr d'
         \<and> PROMPTS d = PROMPTS d' \<and> PROMPT_CHUNKS d = PROMPT_CHUNKS d'
         \<and> PROMPTS d = Some saved \<and> p \<notin> set saved
         \<and> (\<forall>m cs. chunkPrompt sz p = Inr (Some m, cs) \<longrightarrow> cs = [] \<and> m \<notin> set saved)
         \<and> (\<forall>old loaded t'.
                processPrompts (mergeItems d old) = Inr (loaded, t') \<longrightarrow> p \<notin> set loaded)
         \<and> (id' p \<notin> id' ` set (xs @ ys) \<longrightarrow>
              storedChunks d (id' p) = None
              \<and> (\<forall>old loaded t'.
                     processPrompts (mergeItems d old) = Inr (loaded, t')
                     \<longrightarrow> id' p \<notin> id' ` set loaded))"
proof -
  let ?ps = "xs @ p # ys"
  let ?d = "savedData sz ?ps t"
  let ?d' = "savedData sz (xs @ ys) t"
  let ?saved = "regularOf sz ?ps @ map (shellOf sz) (chunkedOf sz ?ps)"
  let ?ch = "chunkMapOf (chunkedOf sz ?ps) Map.empty"
  have ov: "oversized sz p" using big by (simp add: oversized_def)
  have fr: "fragments p = []" using fragments_Some(3) [OF empty] by simp
  have all: "\<forall>q \<in> set ?ps. content q \<noteq> None" using others empty by auto
  note part = dropped_partition [OF ov empty, of xs ys]
  have d: "dataToSave sz ?ps t = Inr ?d" by (rule dataToSave_eq [OF all])
  have d': "dataToSave sz (xs @ ys) t = Inr ?d'" by (rule dataToSave_eq [OF others])
  have same: "PROMPTS ?d = PROMPTS ?d'" "PROMPT_CHUNKS ?d = PROMPT_CHUNKS ?d'"
    by (simp_all add: savedData_fields part)
  have saved: "PROMPTS ?d = Some ?saved" by (simp add: savedData_fields)
  have sub: "set (regularOf sz ?ps) \<subseteq> set (xs @ ys)" "set (chunkedOf sz ?ps) \<subseteq> set (xs @ ys)"
    unfolding part by (auto simp: regularOf_def chunkedOf_def)
  have reg: "\<not> oversized sz q" if "q \<in> set (regularOf sz ?ps)" for q
    using that unfolding regularOf_def set_filter by blast
  have shell: "content (shellOf sz q) = None \<and> (\<exists>n. chunkCount (shellOf sz q) = Some n \<and> 0 < n)"
    if "q \<in> set (chunkedOf sz ?ps)" for q
  proof -
    from that have "fragments q \<noteq> []" unfolding chunkedOf_def set_filter by blast
    then show ?thesis by (simp add: shellOf_def)
  qed
  have notin: "p \<notin> set ?saved"
  proof
    assume "p \<in> set ?saved"
    then consider "p \<in> set (regularOf sz ?ps)" | q where "q \<in> set (chunkedOf sz ?ps)" "p = shellOf sz q"
      by auto
    then show False
    proof cases
      case 1
      with reg ov show False by blast
    next
      case 2
      with shell [OF 2(1)] empty show False by simp
    qed
  qed
  have meta: "cs = [] \<and> m \<notin> set ?saved" if "chunkPrompt sz p = Inr (Some m, cs)" for m cs
  proof -
    from that chunkPrompt_oversized [OF ov empty] have m: "m = shellOf sz p" "cs = fragments p"
      by simp_all
    have "shellOf sz p \<notin> set ?saved"
    proof
      assume "shellOf sz p \<in> set ?saved"
      then consider "shellOf sz p \<in> set (regularOf sz ?ps)"
        | q where "q \<in> set (chunkedOf sz ?ps)" "shellOf sz p = shellOf sz q"
        by auto
      then show False
      proof cases
        case 1
        with sub(1) others have "content (shellOf sz p) \<noteq> None" by blast
        then show False by (simp add: shellOf_def)
      next
        case 2
        from shell [OF 2(1)] 2(2) have "\<exists>n. chunkCount (shellOf sz p) = Some n \<and> 0 < n" by simp
        then show False by (simp add: shellOf_def fr)
      qed
    qed
    with m fr show ?thesis by simp
  qed
  have loaded: "list_all2 (\<lambda>e r. processEntry ?ch e = Inr r) ?saved ps"
    if "processPrompts (mergeItems ?d old) = Inr (ps, t')" for old ps t'
    using that by (simp add: loaded_savedData)
  have gone: "p \<notin> set ps" if l: "processPrompts (mergeItems ?d old) = Inr (ps, t')" for old ps t'
  proof
    assume "p \<in> set ps"
    from list_all2_right [OF loaded [OF l] this]
    obtain e where e: "e \<in> set ?saved" "processEntry ?ch e = Inr p" ..
    from processEntry_empty_content [OF e(2) empty]
    consider "p = e" "chunkCount e = None \<or> chunkCount e = Some 0"
      | cs where "?ch (id' e) = Some cs" "concat cs = []"
      by blast
    then show False
    proof cases
      case 1
      with e notin show False by simp
    next
      case 2
      with stored_fragments_nonempty [OF all 2(1)] show False by simp
    qed
  qed
  have ids: "storedChunks ?d (id' p) = None
      \<and> (\<forall>old ps t'. processPrompts (mergeItems ?d old) = Inr (ps, t')
             \<longrightarrow> id' p \<notin> id' ` set ps)"
    if fresh: "id' p \<notin> id' ` set (xs @ ys)"
  proof -
    from fresh sub(2) have "id' p \<notin> id' ` set (chunkedOf sz ?ps)" by blast
    from chunkMapOf_other [OF this, of Map.empty]
    have a: "storedChunks ?d (id' p) = None"
      by (simp add: storedChunks_def savedData_fields)
    have savedIds: "id' ` set ?saved \<subseteq> id' ` set (xs @ ys)"
      using sub by (auto simp: shellOf_def)
    have "id' p \<notin> id' ` set ps" if l: "processPrompts (mergeItems ?d old) = Inr (ps, t')" for old ps t'
    proof
      assume "id' p \<in> id' ` set ps"
      then obtain r where r: "r \<in> set ps" "id' r = id' p" by auto
      from list_all2_right [OF loaded [OF l] r(1)]
      obtain e where e: "e \<in> set ?saved" "processEntry ?ch e = Inr r" ..
      from processEntry_id [OF e(2)] r(2) have "id' e = id' p" by simp
      moreover from e(1) have "id' e \<in> id' ` set ?saved" by (rule imageI)
      ultimately show False using savedIds fresh by auto
    qed
    with a show ?thesis by blast
  qed
  have gone': "\<forall>old ps t'. processPrompts (mergeItems ?d old) = Inr (ps, t') \<longrightarrow> p \<notin> set ps"
    using gone by blast
  have meta': "\<forall>m cs. chunkPrompt sz p = Inr (Some m, cs) \<longrightarrow> cs = [] \<and> m \<notin> set ?saved"
    using meta by blast
  have ids': "id' p \<notin> id' ` set (xs @ ys) \<longrightarrow>
      storedChunks ?d (id' p) = None
      \<and> (\<forall>old ps t'. processPrompts (mergeItems ?d old) = Inr (ps, t')
             \<longrightarrow> id' p \<notin> id' ` set ps)"
    using ids by blast
  note c = savePrompts_calls [OF d, of le st]
  show ?thesis
    apply (rule exI [of _ ?d], rule exI [of _ ?d'], rule exI [of _ ?saved])
    using c d d' same saved notin meta' gone' ids' by (intro conjI)

qed


lemma emptyLarge_size: "MAX_PROMPT_SIZE_KB < promptSizeKB blobSize emptyLarge"
proof -
  have "length (title emptyLarge) \<le> blobSize emptyLarge"
    by (rule blobSize_title)
  then have "(8000::nat) \<le> blobSize emptyLarge" by (simp add: emptyLarge_def)
  then have "(8000::rat) \<le> of_nat (blobSize emptyLarge)"
    by (metis of_nat_le_iff of_nat_numeral)
  then show ?thesis by (simp add: MAX_PROMPT_SIZE_KB_def promptSizeKB_def)
qed

theorem savePrompts_drops_empty_oversized_witness:
  "\<exists>d. dataToSave blobSize [smallPrompt, emptyLarge] Local = Inr d
       \<and> PROMPTS d = Some [smallPrompt]
       \<and> storedChunks d (id' emptyLarge) = None
       \<and> processPrompts (mergeItems d noItems) = Inr ([smallPrompt], Local)
       \<and> emptyLarge \<notin> set [smallPrompt]"
proof -
  have e: "content emptyLarge = Some []" by (simp add: emptyLarge_def)
  have o: "\<forall>q \<in> set ([smallPrompt] @ []). content q \<noteq> None" by (simp add: smallPrompt_fields)
  have i: "id' emptyLarge \<notin> id' ` set ([smallPrompt] @ [])"
    by (simp add: emptyLarge_def smallPrompt_def)
  have "\<not> oversized blobSize smallPrompt"
    using smallPrompt_regular by (simp add: oversized_def)
  then have d: "dataToSave blobSize ([smallPrompt] @ []) Local = Inr (savedData blobSize [smallPrompt] Local)"
    "PROMPTS (savedData blobSize [smallPrompt] Local) = Some [smallPrompt]"
    "PROMPT_CHUNKS (savedData blobSize [smallPrompt] Local) = Some Map.empty"
    using o by (simp_all add: dataToSave_eq savedData_fields regularOf_simps chunkedOf_simps
        chunkMapOf_simps)
  have n: "chunkCount smallPrompt = None" by (simp add: smallPrompt_def)
  from savePrompts_drops_empty_oversized [OF emptyLarge_size e o, of Local noFailure emptyStore]
  obtain d0 d1 saved where w:
    "dataToSave blobSize ([smallPrompt] @ emptyLarge # []) Local = Inr d0"
    "dataToSave blobSize ([smallPrompt] @ []) Local = Inr d1"
    "PROMPTS d0 = PROMPTS d1" "PROMPT_CHUNKS d0 = PROMPT_CHUNKS d1"
    "\<forall>old loaded t'. processPrompts (mergeItems d0 old) = Inr (loaded, t') \<longrightarrow> emptyLarge \<notin> set loaded"
    "id' emptyLarge \<notin> id' ` set ([smallPrompt] @ []) \<longrightarrow> storedChunks d0 (id' emptyLarge) = None"
    by (elim exE conjE) blast
  from w(2) d(1) have d1: "d1 = savedData blobSize [smallPrompt] Local" by simp
  from w(1) have t: "STORAGE_TYPE d0 = Some Local"
    by (auto simp: dataToSave_def split: sum.splits)
  have p: "PROMPTS d0 = Some [smallPrompt]" "PROMPT_CHUNKS d0 = Some Map.empty"
    using w(3,4) d(2,3) by (simp_all add: d1)
  have l: "processPrompts (mergeItems d0 noItems) = Inr ([smallPrompt], Local)"
    by (simp add: processPrompts_def mergeItems_def orElse_def p t processEntry_def n)
  with w(5) have "emptyLarge \<notin> set [smallPrompt]" by blast
  with w(1) p(1) w(6) i l show ?thesis by auto
qed


subsection \<open>The id __proto__\<close>

text \<open>
  For an oversized record with the id \<open>__proto__\<close>, \<open>savePrompts\<close> stores the shell and
  no fragments, and the record is loaded with the sentinel content.
\<close>

lemma proto_fragments_lost:
  "dataToSave blobSize [protoPrompt] Local = Inr (savedData blobSize [protoPrompt] Local)"
  "PROMPTS (savedData blobSize [protoPrompt] Local) = Some [shellOf blobSize protoPrompt]"
  "storedChunks (savedData blobSize [protoPrompt] Local) k = None"
  "processPrompts (savedData blobSize [protoPrompt] Local)
     = Inr ([(shellOf blobSize protoPrompt)\<lparr>content := Some missingChunks\<rparr>], Local)"
proof -
  have f: "id' protoPrompt = ''__proto__''" "content protoPrompt = Some (replicate 10000 CHR ''A'')"
    by (simp_all add: protoPrompt_def largePrompt_def)
  have "length (replicate 10000 CHR ''A'') \<le> blobSize protoPrompt"
    by (rule blobSize_content [OF f(2)])
  then have "(10000::nat) \<le> blobSize protoPrompt" by simp
  then have "(10000::rat) \<le> of_nat (blobSize protoPrompt)"
    by (metis of_nat_le_iff of_nat_numeral)
  then have big: "oversized blobSize protoPrompt"
    by (simp add: oversized_def MAX_PROMPT_SIZE_KB_def promptSizeKB_def)
  have fr: "fragments protoPrompt \<noteq> []"
    using fragments_Some(3) [OF f(2)] by simp
  have part: "regularOf blobSize [protoPrompt] = []" "chunkedOf blobSize [protoPrompt] = [protoPrompt]"
    using big fr by (simp_all add: regularOf_simps chunkedOf_simps)
  show "dataToSave blobSize [protoPrompt] Local = Inr (savedData blobSize [protoPrompt] Local)"
    by (rule dataToSave_eq) (simp add: f)
  show "PROMPTS (savedData blobSize [protoPrompt] Local) = Some [shellOf blobSize protoPrompt]"
    by (simp add: savedData_fields part)
  show none: "storedChunks (savedData blobSize [protoPrompt] Local) k = None" for k
    by (simp add: storedChunks_def savedData_fields part chunkMapOf_simps setProperty_lookup f)
  have s: "id' (shellOf blobSize protoPrompt) = ''__proto__''"
    "\<exists>n. chunkCount (shellOf blobSize protoPrompt) = Some n \<and> 0 < n"
    using fr by (simp_all add: shellOf_def f)
  have "objectPrototype ''__proto__'' = Some Accessor"
    by (simp add: objectPrototype_def)
  with s none [of "''__proto__''"]
  have "processEntry (storedChunks (savedData blobSize [protoPrompt] Local)) (shellOf blobSize protoPrompt)
      = Inr ((shellOf blobSize protoPrompt)\<lparr>content := Some missingChunks\<rparr>)"
    by (auto simp: processEntry_def getProperty_def)
  then show "processPrompts (savedData blobSize [protoPrompt] Local)
     = Inr ([(shellOf blobSize protoPrompt)\<lparr>content := Some missingChunks\<rparr>], Local)"
    by (simp add: processPrompts_Inr savedData_fields part)
qed


subsection \<open>The insertion-ordered map\<close>



















subsection \<open>Merging by id\<close>










subsection \<open>Reloading what was saved\<close>











subsection \<open>Importing twice\<close>









subsection \<open>The tag index\<close>











subsection \<open>Two imports of one small record\<close>































subsection \<open>A record with a stale chunk count\<close>
















end
